theory Spec2Isabelle
  imports Main "HOL-Library.Word" "HOL-Library.Log_Nat"
begin

unbundle bit_operations_syntax

section \<open>JavaScript values\<close>

text \<open>
  The route handlers are TypeScript running on Node. A JavaScript string is modelled as a
  \<open>string\<close> (the bytes of its UTF-8 encoding), \<open>null\<close> and \<open>undefined\<close> of a nullable
  string as \<open>None\<close>, and a parsed JSON document as a \<open>json\<close> value. The number type is a
  parameter \<open>'n\<close>: the handlers only copy numbers, compare them with zero, subtract and
  multiply them, so every theorem below holds for whatever arithmetic \<open>'n\<close> carries.
  An object is the list of its properties; \<open>map_of\<close> reads one, as \<open>JSON.parse\<close> leaves
  one value per key.
\<close>

datatype 'n json =
    JNull
  | JBool bool
  | JNum 'n
  | JStr string
  | JArr "'n json list"
  | JObj "(string \<times> 'n json) list"

text \<open>
  An object literal whose property values may be \<open>undefined\<close>: \<open>JSON.stringify\<close>, and with it
  \<open>NextResponse.json\<close>, leaves such properties out.
\<close>

fun defined_props :: "(string \<times> 'n json option) list \<Rightarrow> (string \<times> 'n json) list" where
  "defined_props [] = []"
| "defined_props ((k, None) # kvs) = defined_props kvs"
| "defined_props ((k, Some v) # kvs) = (k, v) # defined_props kvs"

definition obj :: "(string \<times> 'n json option) list \<Rightarrow> 'n json" where
  "obj kvs = JObj (defined_props kvs)"

text \<open>Truthiness, as \<open>!x\<close>, \<open>x || y\<close> and \<open>x ? a : b\<close> test it.\<close>

definition truthy_str :: "string option \<Rightarrow> bool" where
  "truthy_str s = (case s of None \<Rightarrow> False | Some v \<Rightarrow> v \<noteq> [])"

fun truthy :: "('n::zero) json option \<Rightarrow> bool" where
  "truthy None = False"
| "truthy (Some JNull) = False"
| "truthy (Some (JBool b)) = b"
| "truthy (Some (JNum n)) = (n \<noteq> 0)"
| "truthy (Some (JStr s)) = (s \<noteq> [])"
| "truthy (Some (JArr xs)) = True"
| "truthy (Some (JObj kvs)) = True"

section \<open>Exceptions, collaborators and the call trace\<close>

text \<open>
  What a handler can throw: a \<open>ZodError\<close> with its list of issues (\<open>error.errors\<close>) and
  its message, or any other \<open>Error\<close> with its \<open>message\<close>. An issue keeps its code and its path; the descriptive
  fields of an issue (message, expected, received) are not modelled.
\<close>

datatype zod_issue = Issue (issue_code: string) (issue_path: "string list")

datatype exn = ZodError "zod_issue list" string | Error string

definition issue_json :: "zod_issue \<Rightarrow> 'n json" where
  "issue_json i = JObj [(''code'', JStr (issue_code i)), (''path'', JArr (map JStr (issue_path i)))]"

definition quote :: "string \<Rightarrow> string" where
  "quote s = [CHR 0x27] @ s @ [CHR 0x27]"

text \<open>Reading a property of \<open>null\<close> or \<open>undefined\<close> throws a \<open>TypeError\<close> (V8's message).\<close>

definition TypeError_read :: "string \<Rightarrow> string \<Rightarrow> exn" where
  "TypeError_read what k =
     Error (''Cannot read properties of '' @ what @ '' (reading '' @ quote k @ '')'')"

fun get_prop :: "string \<Rightarrow> 'n json option \<Rightarrow> exn + 'n json option" where
  "get_prop k None = Inl (TypeError_read ''undefined'' k)"
| "get_prop k (Some JNull) = Inl (TypeError_read ''null'' k)"
| "get_prop k (Some (JObj kvs)) = Inr (map_of kvs k)"
| "get_prop k (Some v) = Inr None"

text \<open>Optional chaining \<open>x?.k\<close>.\<close>

fun opt_prop :: "string \<Rightarrow> 'n json option \<Rightarrow> 'n json option" where
  "opt_prop k (Some (JObj kvs)) = map_of kvs k"
| "opt_prop k v = None"

text \<open>Template-literal conversion \<open>`${x}`\<close> of a nullable string.\<close>

definition str_of :: "string option \<Rightarrow> string" where
  "str_of s = (case s of None \<Rightarrow> ''undefined'' | Some v \<Rightarrow> v)"

subsection \<open>Data of the collaborators\<close>

text \<open>
  The library modules of the repository (\<open>@/lib/...\<close>) and the services behind them are not
  part of the sources at hand. Their data is modelled with the fields the handlers read or
  write, under the names the handlers use.
\<close>

type_synonym byte = "8 word"

text \<open>
  A \<open>Date\<close> object: the ISO string of its time value, or \<open>None\<close> for an \<open>Invalid Date\<close>,
  which is what \<open>setDate\<close> leaves when the day is out of the range of dates.
\<close>

type_synonym date = "string option"

record address =
  addr_street :: string
  addr_city :: string
  addr_state :: string
  addr_zip :: string
  addr_country :: string

text \<open>The payment provider (\<open>mercuryClient\<close>): invoices and customers.\<close>

record 'n invoice =
  inv_id :: string
  inv_number :: string
  inv_status :: string
  inv_total :: 'n
  inv_paidAmount :: "'n option"
  inv_dueDate :: string
  inv_paidAt :: "string option"
  inv_paymentUrl :: string
  inv_customerId :: string

record mercury_customer =
  mc_id :: string
  mc_name :: string
  mc_email :: string

record customer_input =
  ci_name :: string
  ci_email :: string
  ci_phone :: "string option"
  ci_address :: "address option"

record 'n line_item =
  li_description :: string
  li_quantity :: 'n
  li_unitPrice :: 'n
  li_amount :: 'n

record 'n invoice_input =
  ii_customerId :: string
  ii_dueDate :: date
  ii_lineItems :: "'n line_item list"
  ii_subtotal :: 'n
  ii_tax :: 'n
  ii_shipping :: 'n
  ii_discount :: 'n
  ii_total :: 'n
  ii_notes :: "string option"
  ii_sendEmail :: bool

text \<open>
  The argument of \<open>sendEmail\<close>. The \<open>html\<close> and \<open>text\<close> bodies are template strings over the
  same data; they are left out. Attachments are kept by file name.
\<close>

record 'n email =
  mail_from :: "string option"
  mail_to :: "'n json option"
  mail_cc :: "string list option"
  mail_bcc :: "string list option"
  mail_subject :: string
  mail_attachments :: "string list option"

text \<open>The product catalog and the photo sets.\<close>

record 'n product =
  prod_id :: string
  prod_category :: string
  prod_name :: string
  prod_shortDescription :: string
  prod_basePrice :: 'n
  prod_specifications :: "(string \<times> string) list"
  prod_images :: "string list"
  prod_defaultWarranty :: "string option"
  prod_defaultLeadTime :: "string option"
  prod_variants :: "string list option"

record 'n photo =
  photo_s3Key :: string
  photo_type :: string
  photo_isActualModel :: bool
  photo_other :: "(string \<times> 'n json) list"

record 'n photo_set =
  ps_productId :: string
  ps_productName :: string
  ps_sku :: string
  ps_refrigerant :: string
  ps_photos :: "'n photo list"

text \<open>Object storage: \<open>getFile\<close> answers with a file object, or with nothing.\<close>

record file_object =
  file_Body :: "byte list option"
  file_ContentType :: "string option"

text \<open>
  The database proxy. A stored quotation comes back as untyped data (the handlers cast it
  to \<open>any\<close>), so it is a \<open>json\<close> value.
\<close>

record 'n db_result =
  db_success :: bool
  db_quotation :: "'n json option"

record 'n quotation_item =
  qi_id :: string
  qi_name :: string
  qi_description :: string
  qi_quantity :: 'n
  qi_unitPrice :: 'n
  qi_totalPrice :: 'n
  qi_specifications :: "(string \<times> string) list"
  qi_images :: "string list"

record 'n quotation_terms =
  qt_validUntil :: date
  qt_paymentTerms :: string
  qt_deliveryTerms :: string
  qt_warranty :: "string option"
  qt_leadTime :: "string option"
  qt_shippingCost :: 'n
  qt_taxRate :: "'n option"
  qt_discount :: "('n \<times> string) option"

record 'n partial_quotation =
  q_id :: string
  q_quotationNumber :: string
  q_date :: string
  q_customer :: "'n json"
  q_items :: "'n quotation_item list"
  q_currency :: string
  q_terms :: "'n quotation_terms"
  q_notes :: "string option"
  q_internalNotes :: "string option"
  q_status :: string

record 'n totals =
  tot_subtotal :: 'n
  tot_tax :: 'n
  tot_shipping :: 'n
  tot_discount :: 'n
  tot_total :: 'n

record 'n stored_terms =
  st_validUntil :: string
  st_paymentTerms :: string
  st_deliveryTerms :: string
  st_warranty :: "string option"
  st_leadTime :: "string option"
  st_shippingCost :: 'n
  st_taxRate :: 'n
  st_discount :: "('n \<times> string) option"

record 'n quotation_row =
  qr_quotationNumber :: string
  qr_customerData :: "'n json"
  qr_items :: "'n quotation_item list"
  qr_currency :: string
  qr_subtotal :: 'n
  qr_tax :: 'n
  qr_shipping :: 'n
  qr_discount :: 'n
  qr_total :: 'n
  qr_terms :: "'n stored_terms"
  qr_notes :: "string option"
  qr_internalNotes :: "string option"
  qr_status :: string
  qr_date :: string

text \<open>
  The documents handed to \<open>renderToBuffer\<close>. Of the datasheet data only the fields that
  come from outside the product are kept beside its identification: the descriptions,
  specifications, key specifications and features are computed from the product alone.
\<close>

record datasheet_data =
  ds_productId :: string
  ds_sku :: string
  ds_productName :: string
  ds_productImage :: "string option"
  ds_sideViewImage :: "string option"

record 'n addendum_product =
  ap_productId :: string
  ap_productName :: string
  ap_sku :: string
  ap_refrigerant :: string
  ap_photos :: "('n photo \<times> string) list"

record 'n addendum_data =
  ad_quotationNumber :: "'n json"
  ad_customerName :: "'n json option"
  ad_products :: "'n addendum_product list"

datatype 'n pdf_document =
    QuotationPDF "'n json" "string option" "string option"
  | DatasheetPDF datasheet_data string string string
  | PhotoAddendumPDF "'n addendum_data" string string

subsection \<open>Validated requests\<close>

text \<open>What the Zod schemas of the handlers return for a request that passes.\<close>

record 'n invoice_quotation_item =
  iqi_id :: string
  iqi_name :: string
  iqi_description :: string
  iqi_quantity :: 'n
  iqi_unitPrice :: 'n
  iqi_totalPrice :: 'n

record 'n invoice_quotation =
  iq_quotationNumber :: string
  iq_customer :: customer_input
  iq_items :: "'n invoice_quotation_item list"
  iq_subtotal :: 'n
  iq_tax :: 'n
  iq_shipping :: 'n
  iq_discount :: 'n
  iq_total :: 'n
  iq_notes :: "string option"

record 'n create_invoice_request =
  cir_quotation :: "'n invoice_quotation"
  cir_sendEmail :: bool
  cir_dueInDays :: 'n

record 'n requested_item =
  ri_productId :: string
  ri_variantId :: "string option"
  ri_quantity :: 'n
  ri_customPrice :: "'n option"

record 'n requested_terms =
  rt_paymentTerms :: "string option"
  rt_deliveryTerms :: "string option"
  rt_warranty :: "string option"
  rt_leadTime :: "string option"
  rt_shippingCost :: "'n option"
  rt_discount :: "('n \<times> string) option"

record 'n create_quotation_request =
  cqr_customer :: "'n json"
  cqr_items :: "'n requested_item list"
  cqr_terms :: "'n requested_terms option"
  cqr_notes :: "string option"
  cqr_internalNotes :: "string option"
  cqr_validityDays :: "'n option"
  cqr_currency :: string

record email_options =
  eo_subject :: "string option"
  eo_message :: "string option"
  eo_cc :: "string list option"
  eo_bcc :: "string list option"
  eo_attachPDF :: bool

record datasheet_customer =
  dc_name :: string
  dc_email :: string
  dc_company :: "string option"
  dc_salutation :: "string option"

record datasheet_request =
  dr_productId :: string
  dr_variantId :: "string option"
  dr_customer :: "datasheet_customer option"
  dr_emailOptions :: "email_options option"
  dr_documentStatus :: string
  dr_language :: string
  dr_languages :: "string list option"
  dr_returnPdf :: bool

record include_photos =
  ip_productOverview :: bool
  ip_detail :: bool
  ip_installation :: bool
  ip_actualModelOnly :: bool

record 'n photo_addendum_request =
  par_quotationId :: "string option"
  par_quotationNumber :: "string option"
  par_productIds :: "string list"
  par_customer :: "'n json option"
  par_emailOptions :: "email_options option"
  par_includePhotos :: "include_photos option"
  par_documentStatus :: string

record 'n email_quotation_request =
  eqr_quotationId :: "string option"
  eqr_quotation :: "'n json option"
  eqr_emailOptions :: "email_options option"
  eqr_documentStatus :: string

record 'n photo_query =
  pq_type :: string
  pq_actualModelOnly :: bool
  pq_expiresIn :: 'n

subsection \<open>The call trace\<close>

datatype level = LInfo | LWarn | LError

text \<open>
  One event per call that leaves the handler: the logger and the console, and the
  downstream collaborators (payment provider, email sender, database proxy, PDF renderer,
  object storage), each with its argument.
\<close>

datatype 'n call =
    Log level string
  | MercuryInvoicesGet "'n json option"
  | MercuryCustomersGet string
  | MercuryCustomersCreate customer_input
  | MercuryInvoicesCreate "'n invoice_input"
  | SendEmail "'n email"
  | DbGetQuotation string
  | DbCreateQuotation "'n quotation_row"
  | RenderToBuffer "'n pdf_document"
  | GetFile string
  | GetPresignedUrl string 'n

fun is_downstream :: "'n call \<Rightarrow> bool" where
  "is_downstream (Log l m) = False"
| "is_downstream c = True"

definition downstream :: "'n call list \<Rightarrow> 'n call list" where
  "downstream t = filter is_downstream t"

subsection \<open>Computations\<close>

text \<open>
  An \<open>async\<close> function body: it ends with a value or a thrown exception, and leaves the
  trace of the calls it made, in order.
\<close>

type_synonym ('n, 'a) io = "(exn + 'a) \<times> 'n call list"

definition ret :: "'a \<Rightarrow> ('n, 'a) io" where
  "ret x = (Inr x, [])"

definition throw :: "exn \<Rightarrow> ('n, 'a) io" where
  "throw e = (Inl e, [])"

definition lift :: "exn + 'a \<Rightarrow> ('n, 'a) io" where
  "lift r = (r, [])"

definition io_bind :: "('n, 'a) io \<Rightarrow> ('a \<Rightarrow> ('n, 'b) io) \<Rightarrow> ('n, 'b) io" where
  "io_bind m f =
     (case m of
        (Inl e, t) \<Rightarrow> (Inl e, t)
      | (Inr x, t) \<Rightarrow> (case f x of (r, t') \<Rightarrow> (r, t @ t')))"

text \<open>\<open>try { m } catch (error) { h error }\<close>\<close>

definition try_catch :: "('n, 'a) io \<Rightarrow> (exn \<Rightarrow> ('n, 'a) io) \<Rightarrow> ('n, 'a) io" where
  "try_catch m h =
     (case m of
        (Inl e, t) \<Rightarrow> (case h e of (r, t') \<Rightarrow> (r, t @ t'))
      | (Inr x, t) \<Rightarrow> (Inr x, t))"

text \<open>A call of a collaborator: its answer comes from the environment, the call is traced.\<close>

definition io_call :: "'n call \<Rightarrow> exn + 'a \<Rightarrow> ('n, 'a) io" where
  "io_call c r = (r, [c])"

definition log :: "level \<Rightarrow> string \<Rightarrow> ('n, unit) io" where
  "log l m = (Inr (), [Log l m])"

text \<open>\<open>(error as Error).message\<close>\<close>

fun message :: "exn \<Rightarrow> string" where
  "message (Error m) = m"
| "message (ZodError is m) = m"

subsection \<open>Requests and responses\<close>

record request =
  req_headers :: "string \<Rightarrow> string option"
  req_text :: string
  req_query :: "string \<Rightarrow> string option"
  req_productId :: string

datatype 'n body = Json "'n json" | Binary "byte list"

record 'n response =
  status :: nat
  headers :: "(string \<times> string) list"
  payload :: "'n body"

text \<open>\<open>NextResponse.json(v, { status })\<close>; the status is 200 when none is given.\<close>

definition NextResponse_json :: "'n json \<Rightarrow> nat \<Rightarrow> 'n response" where
  "NextResponse_json v st =
     \<lparr>status = st, headers = [(''content-type'', ''application/json'')], payload = Json v\<rparr>"

text \<open>The response a handler ends with; a handler catches everything, so there is one.\<close>

definition response_of :: "('n, 'n response) io \<Rightarrow> 'n response option" where
  "response_of m = (case fst m of Inl e \<Rightarrow> None | Inr r \<Rightarrow> Some r)"

definition status_of :: "('n, 'n response) io \<Rightarrow> nat option" where
  "status_of m = map_option status (response_of m)"

definition trace_of :: "('n, 'a) io \<Rightarrow> 'n call list" where
  "trace_of m = snd m"


section \<open>The crypto library\<close>

text \<open>
  \<open>createHmac('sha256', key).update(msg).digest('hex')\<close>, \<open>Buffer.from(s, 'hex')\<close> and
  \<open>timingSafeEqual\<close> belong to Node, not to this repository; they are modelled from their
  specifications (FIPS 180-4, RFC 2104 and the Node documentation).
\<close>

type_synonym u32 = "32 word"

definition Ch :: "u32 \<Rightarrow> u32 \<Rightarrow> u32 \<Rightarrow> u32" where
  "Ch x y z = (x AND y) XOR (NOT x AND z)"

definition Maj :: "u32 \<Rightarrow> u32 \<Rightarrow> u32 \<Rightarrow> u32" where
  "Maj x y z = (x AND y) XOR (x AND z) XOR (y AND z)"

definition bsig0 :: "u32 \<Rightarrow> u32" where
  "bsig0 x = word_rotr 2 x XOR word_rotr 13 x XOR word_rotr 22 x"

definition bsig1 :: "u32 \<Rightarrow> u32" where
  "bsig1 x = word_rotr 6 x XOR word_rotr 11 x XOR word_rotr 25 x"

definition ssig0 :: "u32 \<Rightarrow> u32" where
  "ssig0 x = word_rotr 7 x XOR word_rotr 18 x XOR drop_bit 3 x"

definition ssig1 :: "u32 \<Rightarrow> u32" where
  "ssig1 x = word_rotr 17 x XOR word_rotr 19 x XOR drop_bit 10 x"

text \<open>The round constants, four to a row.\<close>

definition sha256_K :: "u32 list" where
  "sha256_K = concat
      [
       [0x428a2f98, 0x71374491, 0xb5c0fbcf, 0xe9b5dba5],
       [0x3956c25b, 0x59f111f1, 0x923f82a4, 0xab1c5ed5],
       [0xd807aa98, 0x12835b01, 0x243185be, 0x550c7dc3],
       [0x72be5d74, 0x80deb1fe, 0x9bdc06a7, 0xc19bf174],
       [0xe49b69c1, 0xefbe4786, 0x0fc19dc6, 0x240ca1cc],
       [0x2de92c6f, 0x4a7484aa, 0x5cb0a9dc, 0x76f988da],
       [0x983e5152, 0xa831c66d, 0xb00327c8, 0xbf597fc7],
       [0xc6e00bf3, 0xd5a79147, 0x06ca6351, 0x14292967],
       [0x27b70a85, 0x2e1b2138, 0x4d2c6dfc, 0x53380d13],
       [0x650a7354, 0x766a0abb, 0x81c2c92e, 0x92722c85],
       [0xa2bfe8a1, 0xa81a664b, 0xc24b8b70, 0xc76c51a3],
       [0xd192e819, 0xd6990624, 0xf40e3585, 0x106aa070],
       [0x19a4c116, 0x1e376c08, 0x2748774c, 0x34b0bcb5],
       [0x391c0cb3, 0x4ed8aa4a, 0x5b9cca4f, 0x682e6ff3],
       [0x748f82ee, 0x78a5636f, 0x84c87814, 0x8cc70208],
       [0x90befffa, 0xa4506ceb, 0xbef9a3f7, 0xc67178f2]
      ]"

definition sha256_H0 :: "u32 list" where
  "sha256_H0 = concat
      [[0x6a09e667, 0xbb67ae85, 0x3c6ef372, 0xa54ff53a],
       [0x510e527f, 0x9b05688c, 0x1f83d9ab, 0x5be0cd19]]"

fun be32 :: "byte list \<Rightarrow> u32 list" where
  "be32 (a # b # c # d # rest) =
     (push_bit 24 (ucast a) OR push_bit 16 (ucast b) OR push_bit 8 (ucast c) OR ucast d) # be32 rest"
| "be32 _ = []"

definition bytes_of_u32 :: "u32 \<Rightarrow> byte list" where
  "bytes_of_u32 w = [ucast (drop_bit 24 w), ucast (drop_bit 16 w), ucast (drop_bit 8 w), ucast w]"

definition bytes_of_len :: "nat \<Rightarrow> byte list" where
  "bytes_of_len n =
     (let w = (of_nat n :: 64 word) in map (\<lambda>i. ucast (drop_bit (8 * (7 - i)) w)) [0..<8])"

definition sha256_pad :: "byte list \<Rightarrow> byte list" where
  "sha256_pad m =
     m @ [0x80] @ replicate ((119 - length m mod 64) mod 64) 0 @ bytes_of_len (8 * length m)"

fun schedule :: "nat \<Rightarrow> u32 list \<Rightarrow> u32 list" where
  "schedule 0 w = w"
| "schedule (Suc n) w =
     schedule n (w @ [ssig1 (w ! (length w - 2)) + w ! (length w - 7)
                      + ssig0 (w ! (length w - 15)) + w ! (length w - 16)])"

definition sha256_round :: "u32 list \<Rightarrow> u32 \<times> u32 \<Rightarrow> u32 list" where
  "sha256_round s kw =
     (let a = s ! 0; b = s ! 1; c = s ! 2; d = s ! 3; e = s ! 4; f = s ! 5; g = s ! 6; h = s ! 7;
          t1 = h + bsig1 e + Ch e f g + fst kw + snd kw;
          t2 = bsig0 a + Maj a b c
      in [t1 + t2, a, b, c, d + t1, e, f, g])"

definition compress :: "u32 list \<Rightarrow> u32 list \<Rightarrow> u32 list" where
  "compress hs blk = map2 (+) hs (foldl sha256_round hs (zip sha256_K (schedule 48 blk)))"

fun chunks :: "nat \<Rightarrow> 'a list \<Rightarrow> 'a list list" where
  "chunks 0 xs = []"
| "chunks (Suc n) xs = take 16 xs # chunks n (drop 16 xs)"

definition sha256 :: "byte list \<Rightarrow> byte list" where
  "sha256 m =
     (let ws = be32 (sha256_pad m)
      in concat (map bytes_of_u32 (foldl compress sha256_H0 (chunks (length ws div 16) ws))))"

definition hmac_sha256 :: "byte list \<Rightarrow> byte list \<Rightarrow> byte list" where
  "hmac_sha256 key msg =
     (let k0 = (if length key > 64 then sha256 key else key);
          k = k0 @ replicate (64 - length k0) 0
      in sha256 (map (\<lambda>b. b XOR 0x5c) k @ sha256 (map (\<lambda>b. b XOR 0x36) k @ msg)))"

definition bytes_of_string :: "string \<Rightarrow> byte list" where
  "bytes_of_string s = map of_char s"

definition hex_digit :: "nat \<Rightarrow> char" where
  "hex_digit n = ''0123456789abcdef'' ! n"

definition hex_encode :: "byte list \<Rightarrow> string" where
  "hex_encode bs = concat (map (\<lambda>b. [hex_digit (unat b div 16), hex_digit (unat b mod 16)]) bs)"

text \<open>
  \<open>createHmac('sha256', mercuryConfig.webhookSecret!).update(msg).digest('hex')\<close>. The
  secret is read from the configuration and may be \<open>undefined\<close>; \<open>createHmac\<close> then throws
  a \<open>TypeError\<close>, whose message is Node's and is given as \<open>refusal\<close>.
\<close>

definition createHmac_sha256_hex :: "string \<Rightarrow> string option \<Rightarrow> string \<Rightarrow> exn + string" where
  "createHmac_sha256_hex refusal key msg =
     (case key of
        None \<Rightarrow> Inl (Error refusal)
      | Some k \<Rightarrow> Inr (hex_encode (hmac_sha256 (bytes_of_string k) (bytes_of_string msg))))"

definition hex_value :: "char \<Rightarrow> nat option" where
  "hex_value c =
     (let n = (of_char c :: nat)
      in if 48 \<le> n \<and> n \<le> 57 then Some (n - 48)
         else if 97 \<le> n \<and> n \<le> 102 then Some (n - 87)
         else if 65 \<le> n \<and> n \<le> 70 then Some (n - 55)
         else None)"

text \<open>
  \<open>Buffer.from(s, 'hex')\<close> decodes pairs of hexadecimal digits, of either case, and stops
  at the first pair that is not one; a last odd digit is dropped.
\<close>

fun Buffer_from_hex :: "string \<Rightarrow> byte list" where
  "Buffer_from_hex (a # b # rest) =
     (case hex_value a of
        None \<Rightarrow> []
      | Some x \<Rightarrow> (case hex_value b of
                     None \<Rightarrow> []
                   | Some y \<Rightarrow> of_nat (16 * x + y) # Buffer_from_hex rest))"
| "Buffer_from_hex s = []"

text \<open>\<open>timingSafeEqual(a, b)\<close> throws a \<open>RangeError\<close> on buffers of different lengths.\<close>

definition timingSafeEqual :: "byte list \<Rightarrow> byte list \<Rightarrow> exn + bool" where
  "timingSafeEqual a b =
     (if length a \<noteq> length b then Inl (Error ''Input buffers must have the same byte length'')
      else Inr (a = b))"

section \<open>The environment of the handlers\<close>

text \<open>
  The configuration, the library functions and the collaborators a handler reaches, as
  parameters: none of them is in the sources at hand. \<open>number\<close> is the number that a
  count or an integer literal denotes. A collaborator answers with a value
  or throws; a schema answers with the validated request or with the issues it found.
  \<open>date_in_days n\<close> is \<open>new Date()\<close> after \<open>setDate(getDate() + n)\<close>. \<open>toUpperCase\<close> is the
  method of strings; \<open>invalid_key_message\<close> and \<open>invalid_header_message\<close> are the messages
  of the \<open>TypeError\<close>s with which the platform refuses an \<open>undefined\<close> key for \<open>createHmac\<close>
  and a header value. The library functions of the catalog, of the photo sets and of the
  documents, and \<open>getProxyClient\<close>, are taken to return.
  The handlers are exported through \<open>DESERT_SOLUTIONS_SECURITY\<close>, an authentication wrapper
  from the same library; what is modelled is the function it wraps.
\<close>

record 'n env =
  webhookSecret :: "string option"
  companyName :: string
  companyEmail :: string
  defaultValidityDays :: 'n
  defaultTaxRate :: "'n option"

  JSON_parse :: "string \<Rightarrow> exn + 'n json"
  zod_message :: "zod_issue list \<Rightarrow> string"
  number :: "nat \<Rightarrow> 'n"
  parseInt :: "string \<Rightarrow> 'n"
  String_of_number :: "'n \<Rightarrow> string"
  toUpperCase :: "string \<Rightarrow> string"
  invalid_key_message :: string
  invalid_header_message :: "string \<Rightarrow> string"
  today :: string
  now :: string
  date_in_days :: "'n \<Rightarrow> date"

  createInvoiceSchema :: "'n json \<Rightarrow> zod_issue list + 'n create_invoice_request"
  createQuotationSchema :: "'n json \<Rightarrow> zod_issue list + 'n create_quotation_request"
  datasheetSchema :: "'n json \<Rightarrow> zod_issue list + datasheet_request"
  photoAddendumSchema :: "'n json \<Rightarrow> zod_issue list + 'n photo_addendum_request"
  emailQuotationSchema :: "'n json \<Rightarrow> zod_issue list + 'n email_quotation_request"

  getProductById :: "string \<Rightarrow> 'n product option"
  getProductWithVariant :: "string \<Rightarrow> string option \<Rightarrow> 'n product option"
  getProductPrice :: "string \<Rightarrow> string \<Rightarrow> 'n option"
  getProductsByCategory :: "string \<Rightarrow> 'n product list"
  allProducts :: "'n product list"
  product_json :: "'n product \<Rightarrow> 'n json"
  getPhotosByProductId :: "string \<Rightarrow> 'n photo_set option"
  generateQuotationNumber :: "string option \<Rightarrow> string"
  calculateQuotationTotals :: "'n partial_quotation \<Rightarrow> 'n totals"
  getStatusLabel :: "string \<Rightarrow> string"
  generateDocumentHash :: "string \<Rightarrow> string"
  quotation_email_bodies :: "'n json option \<Rightarrow> 'n json option \<Rightarrow> exn + unit"

  mercury_invoices_get :: "'n json option \<Rightarrow> exn + 'n invoice"
  mercury_customers_get :: "string \<Rightarrow> exn + mercury_customer"
  mercury_customers_create :: "customer_input \<Rightarrow> exn + mercury_customer"
  mercury_invoices_create :: "'n invoice_input \<Rightarrow> exn + 'n invoice"
  send_email :: "'n email \<Rightarrow> exn + unit"
  db_getQuotation :: "string \<Rightarrow> exn + 'n db_result"
  db_createQuotation :: "'n quotation_row \<Rightarrow> exn + 'n json option"
  renderToBuffer :: "'n pdf_document \<Rightarrow> exn + byte list"
  getFile :: "string \<Rightarrow> exn + file_object option"
  getPresignedUrl :: "string \<Rightarrow> 'n \<Rightarrow> exn + string"

text \<open>A schema's \<open>parse\<close>: the validated value, or a thrown \<open>ZodError\<close>.\<close>

definition schema_parse ::
  "'n env \<Rightarrow> ('n json \<Rightarrow> zod_issue list + 'v) \<Rightarrow> 'n json \<Rightarrow> exn + 'v" where
  "schema_parse env schema v =
     (case schema v of
        Inl issues \<Rightarrow> Inl (ZodError issues (zod_message env issues))
      | Inr validated \<Rightarrow> Inr validated)"

text \<open>\<open>await req.json()\<close>\<close>

definition req_json :: "'n env \<Rightarrow> request \<Rightarrow> exn + 'n json" where
  "req_json env req = JSON_parse env (req_text req)"

text \<open>The response to a \<open>ZodError\<close>, and the response to any other exception.\<close>

definition invalid_response :: "string \<Rightarrow> zod_issue list \<Rightarrow> 'n response" where
  "invalid_response label issues =
     NextResponse_json
       (JObj [(''error'', JStr label), (''details'', JArr (map issue_json issues))]) 400"

definition failure_response :: "string \<Rightarrow> exn \<Rightarrow> 'n response" where
  "failure_response label error =
     NextResponse_json (JObj [(''error'', JStr label), (''message'', JStr (message error))]) 500"

text \<open>
  The \<open>catch\<close> block of the handlers that validate with a schema: the error is logged,
  a \<open>ZodError\<close> is answered 400 with its issues, anything else 500 with its message.
\<close>

definition catch_zod :: "string \<Rightarrow> string \<Rightarrow> string \<Rightarrow> exn \<Rightarrow> ('n, 'n response) io" where
  "catch_zod logged invalid failed error =
     io_bind (log LError logged) (\<lambda>_.
       (case error of
          ZodError issues m \<Rightarrow> ret (invalid_response invalid issues)
        | Error m \<Rightarrow> ret (failure_response failed error)))"

text \<open>The \<open>catch\<close> block of the handlers without a schema.\<close>

definition catch_all :: "string \<Rightarrow> string \<Rightarrow> exn \<Rightarrow> ('n, 'n response) io" where
  "catch_all logged failed error =
     io_bind (log LError logged) (\<lambda>_. ret (failure_response failed error))"

text \<open>\<open>date.toISOString()\<close>, which throws a \<open>RangeError\<close> on an \<open>Invalid Date\<close>.\<close>

definition toISOString :: "date \<Rightarrow> exn + string" where
  "toISOString d = (case d of None \<Rightarrow> Inl (Error ''Invalid time value'') | Some stamp \<Rightarrow> Inr stamp)"

text \<open>
  The headers of a response refuse a value that holds a NUL, a line feed or a carriage
  return, and one that holds a character above U+00FF, which in UTF-8 is a byte from
  \<open>0xC4\<close> on. (White space at the ends of a value is removed first; the values built here
  start with a letter and end with a quotation mark.)
\<close>

definition valid_header_value :: "string \<Rightarrow> bool" where
  "valid_header_value v =
     list_all (\<lambda>c. c \<noteq> CHR 0x00 \<and> c \<noteq> CHR 0x0A \<and> c \<noteq> CHR 0x0D
                   \<and> (of_char c :: nat) < 0xC4) v"

definition content_disposition :: "string \<Rightarrow> string" where
  "content_disposition filename = ''attachment; filename='' @ [CHR 0x22] @ filename @ [CHR 0x22]"

text \<open>
  A PDF sent as the response, \<open>new NextResponse(buffer, { status: 200, headers })\<close>: the
  constructor throws when the \<open>Content-Disposition\<close> value is refused.
\<close>

definition pdf_response :: "'n env \<Rightarrow> byte list \<Rightarrow> string \<Rightarrow> exn + 'n response" where
  "pdf_response env buffer filename =
     (if valid_header_value (content_disposition filename)
      then Inr \<lparr>status = 200,
                headers = [(''Content-Type'', ''application/pdf''),
                           (''Content-Disposition'', content_disposition filename)],
                payload = Binary buffer\<rparr>
      else Inl (Error (invalid_header_message env (content_disposition filename))))"

section \<open>Payment webhook: POST /api/desert-solutions/payment/webhook\<close>

text \<open>
  The three event handlers differ in their log lines and in the email they send. Each reads
  \<open>data.invoiceId\<close> first, fetches the invoice and its customer, sends the email, and logs
  and rethrows whatever is thrown on the way.
\<close>

definition handle_invoice_event ::
  "'n env \<Rightarrow> string \<Rightarrow> string \<Rightarrow> ('n invoice \<Rightarrow> string) \<Rightarrow> string \<Rightarrow> 'n json option
     \<Rightarrow> ('n, unit) io" where
  "handle_invoice_event env name processing subject sent data =
     try_catch
       (io_bind (lift (get_prop ''invoiceId'' data)) (\<lambda>invoiceId.
        io_bind (log LInfo processing) (\<lambda>_.
        io_bind (io_call (MercuryInvoicesGet invoiceId) (mercury_invoices_get env invoiceId))
          (\<lambda>invoice.
        io_bind (io_call (MercuryCustomersGet (inv_customerId invoice))
                   (mercury_customers_get env (inv_customerId invoice))) (\<lambda>customer.
        let mail = \<lparr>mail_from = None, mail_to = Some (JStr (mc_email customer)), mail_cc = None,
                    mail_bcc = None, mail_subject = subject invoice, mail_attachments = None\<rparr>
        in io_bind (io_call (SendEmail mail) (send_email env mail)) (\<lambda>_.
           log LInfo sent))))))
       (\<lambda>error. io_bind (log LError (''Error handling '' @ name @ '' event:'')) (\<lambda>_.
          throw error))"

definition handleInvoicePaid :: "'n env \<Rightarrow> 'n json option \<Rightarrow> ('n, unit) io" where
  "handleInvoicePaid env data =
     handle_invoice_event env ''invoice.paid'' ''Processing invoice.paid event''
       (\<lambda>invoice. ''Payment Received - Invoice '' @ inv_number invoice)
       ''Invoice paid confirmation email sent'' data"

definition handlePaymentFailed :: "'n env \<Rightarrow> 'n json option \<Rightarrow> ('n, unit) io" where
  "handlePaymentFailed env data =
     handle_invoice_event env ''invoice.payment_failed''
       ''Processing invoice.payment_failed event''
       (\<lambda>invoice. ''Payment Failed - Invoice '' @ inv_number invoice)
       ''Payment failure notification sent'' data"

definition handleInvoiceOverdue :: "'n env \<Rightarrow> 'n json option \<Rightarrow> ('n, unit) io" where
  "handleInvoiceOverdue env data =
     handle_invoice_event env ''invoice.overdue'' ''Processing invoice.overdue event''
       (\<lambda>invoice. ''Payment Reminder - Invoice '' @ inv_number invoice @ '' is Overdue'')
       ''Overdue reminder sent'' data"

text \<open>The \<open>switch (event.type)\<close>, with strict equality on the cases.\<close>

definition dispatch_event :: "'n env \<Rightarrow> 'n json option \<Rightarrow> 'n json option \<Rightarrow> ('n, unit) io" where
  "dispatch_event env type data =
     (if type = Some (JStr ''invoice.paid'') then handleInvoicePaid env data
      else if type = Some (JStr ''invoice.payment_failed'') then handlePaymentFailed env data
      else if type = Some (JStr ''invoice.overdue'') then handleInvoiceOverdue env data
      else log LWarn ''Unhandled webhook event type:'')"

text \<open>
  The signature test \<open>signatureBuffer.length !== expectedBuffer.length ||
  !timingSafeEqual(signatureBuffer, expectedBuffer)\<close>; the second operand is evaluated only
  when the lengths agree.
\<close>

definition signature_invalid :: "byte list \<Rightarrow> byte list \<Rightarrow> exn + bool" where
  "signature_invalid signatureBuffer expectedBuffer =
     (if length signatureBuffer \<noteq> length expectedBuffer then Inr True
      else (case timingSafeEqual signatureBuffer expectedBuffer of
              Inl e \<Rightarrow> Inl e
            | Inr eq \<Rightarrow> Inr (\<not> eq)))"

text \<open>The handler body after the signature has been accepted.\<close>

definition webhook_process :: "'n env \<Rightarrow> string \<Rightarrow> ('n, 'n response) io" where
  "webhook_process env body =
     io_bind (lift (JSON_parse env body)) (\<lambda>event.
     io_bind (lift (get_prop ''type'' (Some event))) (\<lambda>type.
     io_bind (lift (get_prop ''data'' (Some event))) (\<lambda>data.
     io_bind (log LInfo ''Received payment webhook:'') (\<lambda>_.
     io_bind (dispatch_event env type data) (\<lambda>_.
     ret (NextResponse_json (JObj [(''received'', JBool True)]) 200))))))"

definition webhook_try :: "'n env \<Rightarrow> request \<Rightarrow> ('n, 'n response) io" where
  "webhook_try env req =
     (let signature = req_headers req ''X-Webhook-Signature'';
          timestamp = req_headers req ''X-Webhook-Timestamp''
      in if \<not> truthy_str signature \<or> \<not> truthy_str timestamp
         then ret (NextResponse_json
                     (JObj [(''error'', JStr ''Missing webhook signature headers'')]) 401)
         else
           let body = req_text req
           in io_bind (lift (createHmac_sha256_hex (invalid_key_message env) (webhookSecret env)
                               (str_of timestamp @ ''.'' @ body))) (\<lambda>expectedSignature.
              let signatureBuffer = Buffer_from_hex (str_of signature);
                  expectedBuffer = Buffer_from_hex expectedSignature
              in io_bind (lift (signature_invalid signatureBuffer expectedBuffer)) (\<lambda>invalid.
                 if invalid
                 then io_bind (log LError ''Invalid webhook signature'') (\<lambda>_.
                      ret (NextResponse_json
                             (JObj [(''error'', JStr ''Invalid webhook signature'')]) 401))
                 else webhook_process env body)))"

definition webhook_POST :: "'n env \<Rightarrow> request \<Rightarrow> ('n, 'n response) io" where
  "webhook_POST env req =
     try_catch (webhook_try env req)
       (catch_all ''Error processing payment webhook:'' ''Failed to process webhook'')"

section \<open>Small JavaScript idioms\<close>

text \<open>\<open>x || 0\<close> on a number that may be missing.\<close>

definition or_zero :: "('n::zero) option \<Rightarrow> 'n" where
  "or_zero x = (case x of None \<Rightarrow> 0 | Some v \<Rightarrow> if v = 0 then 0 else v)"

text \<open>\<open>x || y\<close> on a number that may be missing: \<open>y\<close> when \<open>x\<close> is missing or zero.\<close>

definition or_number :: "('n::zero) option \<Rightarrow> 'n \<Rightarrow> 'n" where
  "or_number x y = (case x of None \<Rightarrow> y | Some v \<Rightarrow> if v = 0 then y else v)"

text \<open>\<open>x || y\<close> and \<open>x ?? y\<close> on a nullable string.\<close>

definition or_string :: "string option \<Rightarrow> string \<Rightarrow> string" where
  "or_string x y = (case x of None \<Rightarrow> y | Some v \<Rightarrow> if v = [] then y else v)"

definition nullish :: "'a option \<Rightarrow> 'a \<Rightarrow> 'a" where
  "nullish x y = (case x of None \<Rightarrow> y | Some v \<Rightarrow> v)"

text \<open>A natural number in decimal, as a template literal prints an array index.\<close>

function decimal :: "nat \<Rightarrow> string" where
  "decimal n =
     (if n < 10 then [char_of (48 + n)] else decimal (n div 10) @ [char_of (48 + n mod 10)])"
  by pat_completeness auto
termination
  by (relation "measure id") auto

declare decimal.simps [simp del]

text \<open>\<open>String(v)\<close>, as a template literal converts a value; numbers by the library.\<close>

fun join_comma :: "string list \<Rightarrow> string" where
  "join_comma [] = []"
| "join_comma [s] = s"
| "join_comma (s # t # ss) = s @ '','' @ join_comma (t # ss)"

fun String_of :: "('n \<Rightarrow> string) \<Rightarrow> 'n json \<Rightarrow> string" where
  "String_of f JNull = ''null''"
| "String_of f (JBool b) = (if b then ''true'' else ''false'')"
| "String_of f (JNum n) = f n"
| "String_of f (JStr s) = s"
| "String_of f (JArr xs) = join_comma (map (\<lambda>x. if x = JNull then [] else String_of f x) xs)"
| "String_of f (JObj kvs) = ''[object Object]''"

definition template :: "'n env \<Rightarrow> 'n json option \<Rightarrow> string" where
  "template env v =
     (case v of None \<Rightarrow> ''undefined'' | Some j \<Rightarrow> String_of (String_of_number env) j)"

section \<open>Invoice status: GET /api/desert-solutions/invoice/status\<close>

definition invoice_status_json :: "('n::{zero,minus}) invoice \<Rightarrow> 'n json" where
  "invoice_status_json invoice =
     obj [(''id'', Some (JStr (inv_id invoice))),
          (''invoiceNumber'', Some (JStr (inv_number invoice))),
          (''status'', Some (JStr (inv_status invoice))),
          (''total'', Some (JNum (inv_total invoice))),
          (''amountPaid'', Some (JNum (or_zero (inv_paidAmount invoice)))),
          (''amountDue'', Some (JNum (inv_total invoice - or_zero (inv_paidAmount invoice)))),
          (''dueDate'', Some (JStr (inv_dueDate invoice))),
          (''paidDate'', map_option JStr (inv_paidAt invoice)),
          (''paymentUrl'', Some (JStr (inv_paymentUrl invoice))),
          (''customerId'', Some (JStr (inv_customerId invoice)))]"

definition invoice_status_try :: "('n::{zero,minus}) env \<Rightarrow> request \<Rightarrow> ('n, 'n response) io" where
  "invoice_status_try env req =
     (let invoiceId = req_query req ''invoiceId''
      in if \<not> truthy_str invoiceId
         then ret (NextResponse_json (JObj [(''error'', JStr ''Missing invoiceId parameter'')]) 400)
         else
           io_bind (io_call (MercuryInvoicesGet (map_option JStr invoiceId))
                      (mercury_invoices_get env (map_option JStr invoiceId))) (\<lambda>invoice.
           ret (NextResponse_json
                  (JObj [(''success'', JBool True), (''invoice'', invoice_status_json invoice)])
                  200)))"

definition invoice_status_GET :: "('n::{zero,minus}) env \<Rightarrow> request \<Rightarrow> ('n, 'n response) io" where
  "invoice_status_GET env req =
     try_catch (invoice_status_try env req)
       (catch_all ''Error fetching invoice status:'' ''Failed to fetch invoice status'')"

section \<open>Invoice creation: POST /api/desert-solutions/invoice/create\<close>

definition line_item_of :: "'n invoice_quotation_item \<Rightarrow> 'n line_item" where
  "line_item_of item =
     \<lparr>li_description = iqi_name item @ '' - '' @ iqi_description item,
      li_quantity = iqi_quantity item,
      li_unitPrice = iqi_unitPrice item,
      li_amount = iqi_totalPrice item\<rparr>"

definition invoice_created_json :: "'n invoice \<Rightarrow> mercury_customer \<Rightarrow> 'n json" where
  "invoice_created_json invoice customer =
     JObj [(''id'', JStr (inv_id invoice)),
           (''invoiceNumber'', JStr (inv_number invoice)),
           (''status'', JStr (inv_status invoice)),
           (''total'', JNum (inv_total invoice)),
           (''dueDate'', JStr (inv_dueDate invoice)),
           (''paymentUrl'', JStr (inv_paymentUrl invoice)),
           (''customerId'', JStr (mc_id customer))]"

definition invoice_create_try :: "'n env \<Rightarrow> request \<Rightarrow> ('n, 'n response) io" where
  "invoice_create_try env req =
     io_bind (lift (req_json env req)) (\<lambda>parsed.
     io_bind (lift (schema_parse env (createInvoiceSchema env) parsed)) (\<lambda>validated.
     let quotation = cir_quotation validated
     in io_bind (io_call (MercuryCustomersCreate (iq_customer quotation))
                   (mercury_customers_create env (iq_customer quotation))) (\<lambda>customer.
        let input =
              \<lparr>ii_customerId = mc_id customer,
               ii_dueDate = date_in_days env (cir_dueInDays validated),
               ii_lineItems = map line_item_of (iq_items quotation),
               ii_subtotal = iq_subtotal quotation,
               ii_tax = iq_tax quotation,
               ii_shipping = iq_shipping quotation,
               ii_discount = iq_discount quotation,
               ii_total = iq_total quotation,
               ii_notes = iq_notes quotation,
               ii_sendEmail = cir_sendEmail validated\<rparr>
        in io_bind (io_call (MercuryInvoicesCreate input) (mercury_invoices_create env input))
             (\<lambda>invoice.
           ret (NextResponse_json
                  (JObj [(''success'', JBool True),
                         (''invoice'', invoice_created_json invoice customer)]) 201)))))"

definition invoice_create_POST :: "'n env \<Rightarrow> request \<Rightarrow> ('n, 'n response) io" where
  "invoice_create_POST env req =
     try_catch (invoice_create_try env req)
       (catch_zod ''Error creating invoice:'' ''Invalid request data'' ''Failed to create invoice'')"

section \<open>Quotation creation: POST /api/desert-solutions/quotation/create\<close>

text \<open>
  The callback of \<open>validated.items.map\<close>, item by item with its index. A product that the
  catalog does not have throws, which ends the \<open>map\<close>.
\<close>

definition quotation_item ::
  "('n::{zero,times}) env \<Rightarrow> string \<Rightarrow> 'n requested_item \<Rightarrow> nat \<Rightarrow> exn + 'n quotation_item" where
  "quotation_item env currency item index =
     (case getProductById env (ri_productId item) of
        None \<Rightarrow> Inl (Error (''Product not found: '' @ ri_productId item))
      | Some product \<Rightarrow>
          let pricingId = or_string (ri_variantId item) (ri_productId item);
              catalogPrice = or_number (getProductPrice env pricingId currency)
                               (prod_basePrice product);
              unitPrice = nullish (ri_customPrice item) catalogPrice;
              totalPrice = unitPrice * ri_quantity item
          in Inr \<lparr>qi_id = ri_productId item @ ''-'' @ decimal index,
                  qi_name = prod_name product,
                  qi_description = prod_shortDescription product,
                  qi_quantity = ri_quantity item,
                  qi_unitPrice = unitPrice,
                  qi_totalPrice = totalPrice,
                  qi_specifications = prod_specifications product,
                  qi_images = prod_images product\<rparr>)"

fun quotation_items ::
  "('n::{zero,times}) env \<Rightarrow> string \<Rightarrow> nat \<Rightarrow> 'n requested_item list
     \<Rightarrow> exn + 'n quotation_item list" where
  "quotation_items env currency index [] = Inr []"
| "quotation_items env currency index (item # items) =
     (case quotation_item env currency item index of
        Inl e \<Rightarrow> Inl e
      | Inr built \<Rightarrow>
          (case quotation_items env currency (Suc index) items of
             Inl e \<Rightarrow> Inl e
           | Inr rest \<Rightarrow> Inr (built # rest)))"

definition requested_term :: "'n requested_terms option \<Rightarrow> ('n requested_terms \<Rightarrow> 'a option) \<Rightarrow> 'a option" where
  "requested_term terms field = (case terms of None \<Rightarrow> None | Some t \<Rightarrow> field t)"

definition build_quotation ::
  "('n::{zero,times}) env \<Rightarrow> 'n create_quotation_request \<Rightarrow> 'n quotation_item list
     \<Rightarrow> 'n partial_quotation" where
  "build_quotation env validated quotationItems =
     (let validityDays = nullish (cqr_validityDays validated) (defaultValidityDays env);
          terms = cqr_terms validated
      in \<lparr>q_id = generateQuotationNumber env None,
          q_quotationNumber = generateQuotationNumber env (Some ''QDS''),
          q_date = now env,
          q_customer = cqr_customer validated,
          q_items = quotationItems,
          q_currency = cqr_currency validated,
          q_terms =
            \<lparr>qt_validUntil = date_in_days env validityDays,
             qt_paymentTerms = nullish (requested_term terms rt_paymentTerms) ''Net 30'',
             qt_deliveryTerms = nullish (requested_term terms rt_deliveryTerms) ''FOB Origin'',
             qt_warranty = requested_term terms rt_warranty,
             qt_leadTime = requested_term terms rt_leadTime,
             qt_shippingCost = nullish (requested_term terms rt_shippingCost) 0,
             qt_taxRate = defaultTaxRate env,
             qt_discount = requested_term terms rt_discount\<rparr>,
          q_notes = cqr_notes validated,
          q_internalNotes = cqr_internalNotes validated,
          q_status = ''draft''\<rparr>)"

text \<open>
  The row handed to \<open>createQuotation\<close>: the quotation with its totals. The totals are taken
  to carry the five sums the handler reads from them and nothing else. Building the row
  converts \<open>validUntil\<close> with \<open>toISOString\<close>, which throws on an \<open>Invalid Date\<close>.
\<close>

definition quotation_row_of ::
  "('n::zero) partial_quotation \<Rightarrow> 'n totals \<Rightarrow> exn + 'n quotation_row" where
  "quotation_row_of quotation totals =
     (case toISOString (qt_validUntil (q_terms quotation)) of
        Inl e \<Rightarrow> Inl e
      | Inr validUntil \<Rightarrow>
          Inr \<lparr>qr_quotationNumber = q_quotationNumber quotation,
               qr_customerData = q_customer quotation,
               qr_items = q_items quotation,
               qr_currency = q_currency quotation,
               qr_subtotal = tot_subtotal totals,
               qr_tax = tot_tax totals,
               qr_shipping = tot_shipping totals,
               qr_discount = tot_discount totals,
               qr_total = tot_total totals,
               qr_terms =
                 \<lparr>st_validUntil = validUntil,
                  st_paymentTerms = qt_paymentTerms (q_terms quotation),
                  st_deliveryTerms = qt_deliveryTerms (q_terms quotation),
                  st_warranty = qt_warranty (q_terms quotation),
                  st_leadTime = qt_leadTime (q_terms quotation),
                  st_shippingCost = qt_shippingCost (q_terms quotation),
                  st_taxRate = nullish (qt_taxRate (q_terms quotation)) 0,
                  st_discount = qt_discount (q_terms quotation)\<rparr>,
               qr_notes = q_notes quotation,
               qr_internalNotes = q_internalNotes quotation,
               qr_status = q_status quotation,
               qr_date = q_date quotation\<rparr>)"

definition quotation_create_try ::
  "('n::{zero,times}) env \<Rightarrow> request \<Rightarrow> ('n, 'n response) io" where
  "quotation_create_try env req =
     io_bind (lift (req_json env req)) (\<lambda>parsed.
     io_bind (lift (schema_parse env (createQuotationSchema env) parsed)) (\<lambda>validated.
     io_bind (lift (quotation_items env (cqr_currency validated) 0 (cqr_items validated)))
       (\<lambda>quotationItems.
     let quotation = build_quotation env validated quotationItems;
         totals = calculateQuotationTotals env quotation
     in io_bind (lift (quotation_row_of quotation totals)) (\<lambda>row.
        io_bind (io_call (DbCreateQuotation row) (db_createQuotation env row)) (\<lambda>stored.
        ret (NextResponse_json (obj [(''success'', Some (JBool True)), (''quotation'', stored)])
               201))))))"

definition quotation_create_POST ::
  "('n::{zero,times}) env \<Rightarrow> request \<Rightarrow> ('n, 'n response) io" where
  "quotation_create_POST env req =
     try_catch (quotation_create_try env req)
       (catch_zod ''Error creating quotation:'' ''Invalid request data''
          ''Failed to create quotation'')"

section \<open>Product details: GET /api/desert-solutions/products/get\<close>

definition products_get_try :: "'n env \<Rightarrow> request \<Rightarrow> ('n, 'n response) io" where
  "products_get_try env req =
     (let productId = req_query req ''id'';
          variantId = req_query req ''variantId''
      in if \<not> truthy_str productId
         then ret (NextResponse_json (JObj [(''error'', JStr ''Missing product ID parameter'')]) 400)
         else
           (case getProductWithVariant env (str_of productId) variantId of
              None \<Rightarrow> ret (NextResponse_json (JObj [(''error'', JStr ''Product not found'')]) 404)
            | Some product \<Rightarrow>
                ret (NextResponse_json
                       (JObj [(''success'', JBool True), (''product'', product_json env product)])
                       200)))"

definition products_get_GET :: "'n env \<Rightarrow> request \<Rightarrow> ('n, 'n response) io" where
  "products_get_GET env req =
     try_catch (products_get_try env req)
       (catch_all ''Error fetching product:'' ''Failed to fetch product'')"

section \<open>Product list: GET /api/desert-solutions/products/list\<close>

definition variant_count :: "'n product \<Rightarrow> nat" where
  "variant_count p = (case prod_variants p of None \<Rightarrow> 0 | Some vs \<Rightarrow> length vs)"

definition product_summary :: "'n env \<Rightarrow> 'n product \<Rightarrow> 'n json" where
  "product_summary env p =
     obj [(''id'', Some (JStr (prod_id p))),
          (''category'', Some (JStr (prod_category p))),
          (''name'', Some (JStr (prod_name p))),
          (''shortDescription'', Some (JStr (prod_shortDescription p))),
          (''basePrice'', Some (JNum (prod_basePrice p))),
          (''defaultWarranty'', map_option JStr (prod_defaultWarranty p)),
          (''defaultLeadTime'', map_option JStr (prod_defaultLeadTime p)),
          (''hasVariants'', Some (JBool (variant_count p > 0))),
          (''variantCount'', Some (JNum (number env (variant_count p))))]"

definition products_list_try :: "'n env \<Rightarrow> request \<Rightarrow> ('n, 'n response) io" where
  "products_list_try env req =
     (let category = req_query req ''category'';
          products = (if truthy_str category then getProductsByCategory env (str_of category)
                      else allProducts env)
      in ret (NextResponse_json
                (JObj [(''success'', JBool True),
                       (''count'', JNum (number env (length products))),
                       (''products'', JArr (map (product_summary env) products))]) 200))"

definition products_list_GET :: "'n env \<Rightarrow> request \<Rightarrow> ('n, 'n response) io" where
  "products_list_GET env req =
     try_catch (products_list_try env req)
       (catch_all ''Error listing products:'' ''Failed to list products'')"

section \<open>Product photos: GET /api/desert-solutions/photos/[productId]\<close>

text \<open>
  The object handed to the schema: \<open>searchParams.get\<close> gives \<open>null\<close> (here \<open>None\<close>) for a
  parameter the URL does not have; only \<open>type\<close> is given a fallback before validation.
\<close>

record raw_photo_query =
  raw_type :: string
  raw_actualModelOnly :: "string option"
  raw_expiresIn :: "string option"

definition queryParams :: "request \<Rightarrow> raw_photo_query" where
  "queryParams req =
     \<lparr>raw_type = or_string (req_query req ''type'') ''all'',
      raw_actualModelOnly = req_query req ''actualModelOnly'',
      raw_expiresIn = req_query req ''expiresIn''\<rparr>"

text \<open>
  \<open>querySchema\<close>. \<open>z.enum([...])\<close> accepts the four type names; \<open>z.string().optional()\<close>
  accepts a string or \<open>undefined\<close>, and \<open>null\<close> is neither, so a parameter that the URL
  does not have is an \<open>invalid_type\<close> issue. The transforms run when there is no issue.
\<close>

definition photo_types :: "string list" where
  "photo_types = [''product_overview'', ''detail'', ''installation'', ''all'']"

definition querySchema_issues :: "raw_photo_query \<Rightarrow> zod_issue list" where
  "querySchema_issues q =
     (if raw_type q \<in> set photo_types then [] else [Issue ''invalid_enum_value'' [''type'']])
     @ (case raw_actualModelOnly q of
          None \<Rightarrow> [Issue ''invalid_type'' [''actualModelOnly'']] | Some v \<Rightarrow> [])
     @ (case raw_expiresIn q of
          None \<Rightarrow> [Issue ''invalid_type'' [''expiresIn'']] | Some v \<Rightarrow> [])"

definition querySchema :: "'n env \<Rightarrow> raw_photo_query \<Rightarrow> zod_issue list + 'n photo_query" where
  "querySchema env q =
     (if querySchema_issues q \<noteq> [] then Inl (querySchema_issues q)
      else Inr \<lparr>pq_type = raw_type q,
                pq_actualModelOnly = (raw_actualModelOnly q = Some ''true''),
                pq_expiresIn = (if truthy_str (raw_expiresIn q)
                                then parseInt env (str_of (raw_expiresIn q))
                                else number env 3600)\<rparr>)"

definition querySchema_parse :: "'n env \<Rightarrow> raw_photo_query \<Rightarrow> exn + 'n photo_query" where
  "querySchema_parse env q =
     (case querySchema env q of
        Inl issues \<Rightarrow> Inl (ZodError issues (zod_message env issues))
      | Inr validated \<Rightarrow> Inr validated)"

definition filter_photos :: "string \<Rightarrow> bool \<Rightarrow> 'n photo list \<Rightarrow> 'n photo list" where
  "filter_photos type actualModelOnly photos =
     (let photos1 = (if type \<noteq> ''all'' then filter (\<lambda>p. photo_type p = type) photos
                     else photos)
      in if actualModelOnly then filter photo_isActualModel photos1 else photos1)"

text \<open>
  \<open>Promise.all(photos.map(async ...))\<close>: every element's call is started, in list order;
  the result is the list of values, or a rejection when one of them rejects. Which
  rejection comes first is a matter of timing; the model reports the first in list order.
\<close>

fun Promise_all :: "('n, 'a) io list \<Rightarrow> ('n, 'a list) io" where
  "Promise_all [] = (Inr [], [])"
| "Promise_all (m # ms) =
     (case (m, Promise_all ms) of
        ((Inl e, t), (r, t')) \<Rightarrow> (Inl e, t @ t')
      | ((Inr x, t), (Inl e, t')) \<Rightarrow> (Inl e, t @ t')
      | ((Inr x, t), (Inr xs, t')) \<Rightarrow> (Inr (x # xs), t @ t'))"

definition photo_with_url :: "'n photo \<Rightarrow> string \<Rightarrow> 'n \<Rightarrow> 'n json" where
  "photo_with_url photo signedUrl expiresIn =
     JObj ([(''s3Key'', JStr (photo_s3Key photo)),
            (''type'', JStr (photo_type photo)),
            (''isActualModel'', JBool (photo_isActualModel photo))]
           @ photo_other photo
           @ [(''signedUrl'', JStr signedUrl), (''expiresIn'', JNum expiresIn)])"

definition sign_photo :: "'n env \<Rightarrow> 'n \<Rightarrow> 'n photo \<Rightarrow> ('n, 'n json) io" where
  "sign_photo env expiresIn photo =
     io_bind (io_call (GetPresignedUrl (photo_s3Key photo) expiresIn)
                (getPresignedUrl env (photo_s3Key photo) expiresIn)) (\<lambda>signedUrl.
     ret (photo_with_url photo signedUrl expiresIn))"

definition photos_json :: "'n env \<Rightarrow> 'n photo_set \<Rightarrow> 'n json list \<Rightarrow> 'n json" where
  "photos_json env photoSet photosWithUrls =
     JObj [(''productId'', JStr (ps_productId photoSet)),
           (''productName'', JStr (ps_productName photoSet)),
           (''sku'', JStr (ps_sku photoSet)),
           (''refrigerant'', JStr (ps_refrigerant photoSet)),
           (''photoCount'', JNum (number env (length photosWithUrls))),
           (''photos'', JArr photosWithUrls)]"

definition photos_try :: "'n env \<Rightarrow> request \<Rightarrow> ('n, 'n response) io" where
  "photos_try env req =
     (let productId = req_productId req
      in io_bind (lift (querySchema_parse env (queryParams req))) (\<lambda>validated.
         (case getPhotosByProductId env productId of
            None \<Rightarrow>
              ret (NextResponse_json
                     (JObj [(''error'', JStr ''Product not found''),
                            (''productId'', JStr productId)]) 404)
          | Some photoSet \<Rightarrow>
              let photos = filter_photos (pq_type validated) (pq_actualModelOnly validated)
                             (ps_photos photoSet)
              in io_bind (Promise_all (map (sign_photo env (pq_expiresIn validated)) photos))
                   (\<lambda>photosWithUrls.
                 ret (NextResponse_json (photos_json env photoSet photosWithUrls) 200)))))"

text \<open>This handler's \<open>catch\<close> tests for the \<open>ZodError\<close> first and logs to the console after.\<close>

definition photos_catch :: "exn \<Rightarrow> ('n, 'n response) io" where
  "photos_catch error =
     (case error of
        ZodError issues m \<Rightarrow> ret (invalid_response ''Invalid query parameters'' issues)
      | Error m \<Rightarrow>
          io_bind (log LError ''Error fetching product photos:'') (\<lambda>_.
          ret (failure_response ''Failed to fetch photos'' error)))"

definition photos_GET :: "'n env \<Rightarrow> request \<Rightarrow> ('n, 'n response) io" where
  "photos_GET env req = try_catch (photos_try env req) photos_catch"

section \<open>Quotation PDF: POST /api/desert-solutions/quotation/pdf\<close>



section \<open>Stored quotation: GET /api/desert-solutions/quotation/get\<close>

text \<open>\<open>!result.success || !result.quotation\<close>\<close>

definition quotation_missing :: "('n::zero) db_result \<Rightarrow> bool" where
  "quotation_missing result = (\<not> db_success result \<or> \<not> truthy (db_quotation result))"

definition not_found :: "string \<Rightarrow> 'n response" where
  "not_found label = NextResponse_json (JObj [(''error'', JStr label)]) 404"

definition quotation_get_try :: "('n::zero) env \<Rightarrow> request \<Rightarrow> ('n, 'n response) io" where
  "quotation_get_try env req =
     (let quotationId = req_query req ''id''
      in if \<not> truthy_str quotationId
         then ret (NextResponse_json
                     (JObj [(''error'', JStr ''Missing quotation ID parameter'')]) 400)
         else
           io_bind (io_call (DbGetQuotation (str_of quotationId))
                      (db_getQuotation env (str_of quotationId))) (\<lambda>result.
           if quotation_missing result then ret (not_found ''Quotation not found'')
           else ret (NextResponse_json
                       (obj [(''success'', Some (JBool True)),
                             (''quotation'', db_quotation result)]) 200)))"

definition quotation_get_GET :: "('n::zero) env \<Rightarrow> request \<Rightarrow> ('n, 'n response) io" where
  "quotation_get_GET env req =
     try_catch (quotation_get_try env req)
       (catch_all ''Error fetching quotation:'' ''Failed to fetch quotation'')"

section \<open>Shared by the document handlers\<close>

text \<open>\<open>quotation.customer || quotation.customerData\<close>\<close>

definition customer_of :: "('n::zero) json option \<Rightarrow> exn + 'n json option" where
  "customer_of quotation =
     (case get_prop ''customer'' quotation of
        Inl e \<Rightarrow> Inl e
      | Inr customer \<Rightarrow>
          if truthy customer then Inr customer else get_prop ''customerData'' quotation)"

text \<open>
  \<open>customer.salutation || customer.name.split(' ')[0]\<close>: the salutation when there is one,
  else the name up to its first space; a name that is not a string throws.
\<close>

definition salutation_of :: "('n::zero) json option \<Rightarrow> exn + 'n json option" where
  "salutation_of customer =
     (if truthy (opt_prop ''salutation'' customer) then Inr (opt_prop ''salutation'' customer)
      else (case opt_prop ''name'' customer of
              Some (JStr name) \<Rightarrow> Inr (Some (JStr (takeWhile (\<lambda>c. c \<noteq> CHR '' '') name)))
            | None \<Rightarrow> Inl (TypeError_read ''undefined'' ''split'')
            | Some JNull \<Rightarrow> Inl (TypeError_read ''null'' ''split'')
            | Some other \<Rightarrow> Inl (Error ''customer.name.split is not a function'')))"

text \<open>\<open>{ ...quotation, customer }\<close>\<close>

fun set_prop :: "string \<Rightarrow> 'n json \<Rightarrow> (string \<times> 'n json) list \<Rightarrow> (string \<times> 'n json) list" where
  "set_prop k v [] = [(k, v)]"
| "set_prop k v ((k', v') # kvs) =
     (if k' = k then (k, v) # kvs else (k', v') # set_prop k v kvs)"

definition with_customer :: "'n json option \<Rightarrow> 'n json option \<Rightarrow> 'n json" where
  "with_customer quotation customer =
     (let props = (case quotation of Some (JObj kvs) \<Rightarrow> kvs | other \<Rightarrow> [])
      in (case customer of
            None \<Rightarrow> JObj (filter (\<lambda>kv. fst kv \<noteq> ''customer'') props)
          | Some c \<Rightarrow> JObj (set_prop ''customer'' c props)))"

definition status_suffix :: "'n env \<Rightarrow> string \<Rightarrow> string" where
  "status_suffix env documentStatus =
     (let statusLabel = getStatusLabel env documentStatus
      in if statusLabel \<noteq> [] then '' - '' @ statusLabel else [])"

definition sender :: "'n env \<Rightarrow> string" where
  "sender env = ''Jos'' @ [CHR 0xC3, CHR 0xA9] @ '' Angel Torres <'' @ companyEmail env @ ''>''"

definition email_option :: "email_options option \<Rightarrow> (email_options \<Rightarrow> 'a option) \<Rightarrow> 'a option" where
  "email_option emailOptions field = (case emailOptions of None \<Rightarrow> None | Some eo \<Rightarrow> field eo)"

text \<open>\<open>buffer.toString('base64')\<close>\<close>

definition base64_digit :: "nat \<Rightarrow> char" where
  "base64_digit n =
     ''ABCDEFGHIJKLMNOPQRSTUVWXYZabcdefghijklmnopqrstuvwxyz0123456789+/'' ! n"

fun base64 :: "byte list \<Rightarrow> string" where
  "base64 [] = []"
| "base64 [a] =
     (let n = unat a * 16
      in [base64_digit (n div 64), base64_digit (n mod 64), CHR ''='', CHR ''=''])"
| "base64 [a, b] =
     (let n = unat a * 1024 + unat b * 4
      in [base64_digit (n div 4096), base64_digit (n div 64 mod 64), base64_digit (n mod 64),
          CHR ''=''])"
| "base64 (a # b # c # rest) =
     (let n = unat a * 65536 + unat b * 256 + unat c
      in [base64_digit (n div 262144), base64_digit (n div 4096 mod 64),
          base64_digit (n div 64 mod 64), base64_digit (n mod 64)] @ base64 rest)"

text \<open>
  \<open>fetchImageAsDataUrl\<close>, the same function in the datasheet and the photo addendum
  handlers: whatever \<open>getFile\<close> throws is logged and turned into \<open>null\<close>.
\<close>

definition fetchImageAsDataUrl :: "'n env \<Rightarrow> string \<Rightarrow> ('n, string option) io" where
  "fetchImageAsDataUrl env s3Key =
     try_catch
       (io_bind (io_call (GetFile s3Key) (getFile env s3Key)) (\<lambda>file.
        (case file of
           None \<Rightarrow> ret None
         | Some f \<Rightarrow>
             (case file_Body f of
                None \<Rightarrow> ret None
              | Some bytes \<Rightarrow>
                  ret (Some (''data:'' @ or_string (file_ContentType f) ''image/jpeg''
                             @ '';base64,'' @ base64 bytes))))))
       (\<lambda>error. io_bind (log LError (''Failed to fetch image '' @ s3Key @ '':'')) (\<lambda>_.
          ret None))"

text \<open>\<open>if (url) ...\<close> on the result of \<open>fetchImageAsDataUrl\<close>.\<close>

definition usable_url :: "string option \<Rightarrow> string option" where
  "usable_url url = (if truthy_str url then url else None)"

section \<open>Quotation email: POST /api/desert-solutions/quotation/email\<close>

text \<open>
  The quotation to send: the one in the request, or the stored one when only its
  identifier is given. \<open>Inl\<close> is the early 404.
\<close>

definition resolve_quotation ::
  "('n::zero) env \<Rightarrow> 'n email_quotation_request \<Rightarrow> ('n, 'n response + 'n json option) io" where
  "resolve_quotation env validated =
     (if truthy_str (eqr_quotationId validated) \<and> \<not> truthy (eqr_quotation validated)
      then io_bind (io_call (DbGetQuotation (str_of (eqr_quotationId validated)))
                      (db_getQuotation env (str_of (eqr_quotationId validated)))) (\<lambda>result.
           if quotation_missing result then ret (Inl (not_found ''Quotation not found''))
           else ret (Inr (db_quotation result)))
      else ret (Inr (eqr_quotation validated)))"

text \<open>
  The rest of the handler, with a quotation and its customer at hand. Building the email
  bodies formats dates and amounts of the untyped quotation, which may throw; it is a step
  of the environment.
\<close>

definition send_quotation ::
  "('n::zero) env \<Rightarrow> 'n email_quotation_request \<Rightarrow> 'n json option \<Rightarrow> 'n json option
     \<Rightarrow> ('n, 'n response) io" where
  "send_quotation env validated quotation customer =
     (let emailOptions = eqr_emailOptions validated;
          documentStatus = eqr_documentStatus validated;
          quotationNumber = template env (opt_prop ''quotationNumber'' quotation);
          subject = nullish (email_option emailOptions eo_subject)
                      (companyName env @ '' - Quotation ['' @ quotationNumber @ '']''
                       @ status_suffix env documentStatus);
          documentHash = generateDocumentHash env
                           (''Quotation-'' @ quotationNumber @ ''-'' @ today env)
      in io_bind (lift (salutation_of customer)) (\<lambda>salutation.
         io_bind (lift (quotation_email_bodies env quotation customer)) (\<lambda>_.
         io_bind
           (if (case emailOptions of None \<Rightarrow> True | Some eo \<Rightarrow> eo_attachPDF eo)
            then
              let doc = QuotationPDF (with_customer quotation customer)
                          (Some documentStatus) (Some documentHash)
              in io_bind (io_call (RenderToBuffer doc) (renderToBuffer env doc)) (\<lambda>pdfBuffer.
                 ret (Some [''quotation-'' @ quotationNumber @ ''.pdf'']))
            else ret None) (\<lambda>attachments.
         let mail = \<lparr>mail_from = Some (sender env),
                     mail_to = opt_prop ''email'' customer,
                     mail_cc = email_option emailOptions eo_cc,
                     mail_bcc = None,
                     mail_subject = subject,
                     mail_attachments = attachments\<rparr>
         in io_bind (io_call (SendEmail mail) (send_email env mail)) (\<lambda>_.
            ret (NextResponse_json
                   (obj [(''success'', Some (JBool True)),
                         (''message'', Some (JStr ''Email sent successfully'')),
                         (''recipient'', opt_prop ''email'' customer)]) 200))))))"

definition quotation_email_try :: "('n::zero) env \<Rightarrow> request \<Rightarrow> ('n, 'n response) io" where
  "quotation_email_try env req =
     io_bind (lift (req_json env req)) (\<lambda>parsed.
     io_bind (lift (schema_parse env (emailQuotationSchema env) parsed)) (\<lambda>validated.
     io_bind (resolve_quotation env validated) (\<lambda>resolved.
     (case resolved of
        Inl early \<Rightarrow> ret early
      | Inr quotation \<Rightarrow>
          if \<not> truthy quotation
          then ret (NextResponse_json
                      (JObj [(''error'', JStr ''Quotation data not available'')]) 400)
          else
            io_bind (lift (customer_of quotation)) (\<lambda>customer.
            if \<not> truthy customer
            then ret (NextResponse_json
                        (JObj [(''error'', JStr ''Customer data not available'')]) 400)
            else send_quotation env validated quotation customer)))))"

definition quotation_email_POST :: "('n::zero) env \<Rightarrow> request \<Rightarrow> ('n, 'n response) io" where
  "quotation_email_POST env req =
     try_catch (quotation_email_try env req)
       (catch_zod ''Error sending quotation email:'' ''Invalid request data''
          ''Failed to send email'')"

section \<open>Datasheet: POST /api/desert-solutions/datasheet\<close>

text \<open>\<open>s.replace(pattern, replacement)\<close> with a string pattern: the first occurrence.\<close>

fun replace_first :: "string \<Rightarrow> string \<Rightarrow> string \<Rightarrow> string" where
  "replace_first pat rep [] = (if pat = [] then rep else [])"
| "replace_first pat rep (c # cs) =
     (if take (length pat) (c # cs) = pat then rep @ drop (length pat) (c # cs)
      else c # replace_first pat rep cs)"

text \<open>\<open>buildDatasheetData\<close>, for the fields kept of the datasheet data.\<close>

definition buildDatasheetData ::
  "'n env \<Rightarrow> 'n product \<Rightarrow> string option \<Rightarrow> string option \<Rightarrow> datasheet_data" where
  "buildDatasheetData env product productImage sideViewImage =
     \<lparr>ds_productId = prod_id product,
      ds_sku = or_string (map_of (prod_specifications product) ''SKU'')
                 (toUpperCase env (prod_id product)),
      ds_productName = replace_first ''Desert Solutions '' [] (prod_name product),
      ds_productImage = productImage,
      ds_sideViewImage = sideViewImage\<rparr>"

text \<open>The image of the photo at an index of the photo set, when there is such a photo.\<close>

definition fetch_photo_at :: "'n env \<Rightarrow> 'n photo_set option \<Rightarrow> nat \<Rightarrow> ('n, string option) io" where
  "fetch_photo_at env photoSet i =
     (case photoSet of
        None \<Rightarrow> ret None
      | Some ps \<Rightarrow>
          if i < length (ps_photos ps)
          then io_bind (fetchImageAsDataUrl env (photo_s3Key (ps_photos ps ! i))) (\<lambda>url.
               ret (usable_url url))
          else ret None)"

text \<open>The loop over the languages: one rendering after the other.\<close>

fun render_each ::
  "'n env \<Rightarrow> (string \<Rightarrow> 'n pdf_document) \<Rightarrow> string list \<Rightarrow> ('n, (string \<times> byte list) list) io" where
  "render_each env doc [] = ret []"
| "render_each env doc (lang # langs) =
     io_bind (io_call (RenderToBuffer (doc lang)) (renderToBuffer env (doc lang))) (\<lambda>buffer.
     io_bind (render_each env doc langs) (\<lambda>rest.
     ret ((lang, buffer) # rest)))"

definition langLabel :: "string \<Rightarrow> string" where
  "langLabel lang =
     (if lang = ''en'' then ''EN'' else if lang = ''nl'' then ''NL'' else ''undefined'')"

definition datasheet_attachments :: "string \<Rightarrow> (string \<times> byte list) list \<Rightarrow> string list" where
  "datasheet_attachments sku pdfBuffers =
     map (\<lambda>(lang, buffer).
            if length pdfBuffers > 1 then ''datasheet-'' @ sku @ ''-'' @ langLabel lang @ ''.pdf''
            else ''datasheet-'' @ sku @ ''.pdf'') pdfBuffers"

definition send_datasheet ::
  "'n env \<Rightarrow> datasheet_request \<Rightarrow> 'n product \<Rightarrow> datasheet_data \<Rightarrow> string
     \<Rightarrow> string list \<Rightarrow> (string \<times> byte list) list \<Rightarrow> ('n, 'n response) io" where
  "send_datasheet env validated product datasheetData documentHash langsToGenerate pdfBuffers =
     (case dr_customer validated of
        None \<Rightarrow>
          ret (NextResponse_json
                 (JObj [(''error'', JStr ''Customer email is required when returnPdf is false'')])
                 400)
      | Some customer \<Rightarrow>
          if dc_email customer = []
          then ret (NextResponse_json
                 (JObj [(''error'', JStr ''Customer email is required when returnPdf is false'')])
                 400)
          else
            let emailOptions = dr_emailOptions validated;
                subject = nullish (email_option emailOptions eo_subject)
                            (companyName env @ '' - Product Datasheet ['' @ ds_sku datasheetData
                             @ '']'' @ status_suffix env (dr_documentStatus validated));
                attachments = datasheet_attachments (ds_sku datasheetData) pdfBuffers;
                mail = \<lparr>mail_from = Some (sender env),
                        mail_to = Some (JStr (dc_email customer)),
                        mail_cc = email_option emailOptions eo_cc,
                        mail_bcc = email_option emailOptions eo_bcc,
                        mail_subject = subject,
                        mail_attachments = Some attachments\<rparr>
            in io_bind (io_call (SendEmail mail) (send_email env mail)) (\<lambda>_.
               ret (NextResponse_json
                      (JObj [(''success'', JBool True),
                             (''message'', JStr ''Datasheet email sent successfully''),
                             (''recipient'', JStr (dc_email customer)),
                             (''product'',
                              JObj [(''id'', JStr (prod_id product)),
                                    (''name'', JStr (ds_productName datasheetData)),
                                    (''sku'', JStr (ds_sku datasheetData))]),
                             (''languages'', JArr (map JStr langsToGenerate)),
                             (''attachments'', JNum (number env (length attachments))),
                             (''documentHash'', JStr documentHash)]) 200)))"

definition datasheet_try :: "'n env \<Rightarrow> request \<Rightarrow> ('n, 'n response) io" where
  "datasheet_try env req =
     io_bind (lift (req_json env req)) (\<lambda>parsed.
     io_bind (lift (schema_parse env (datasheetSchema env) parsed)) (\<lambda>validated.
     let productId = dr_productId validated
     in (case (if truthy_str (dr_variantId validated)
               then getProductWithVariant env productId (dr_variantId validated)
               else getProductById env productId) of
           None \<Rightarrow>
             ret (NextResponse_json
                    (JObj [(''error'', JStr ''Product not found''),
                           (''productId'', JStr productId)]) 404)
         | Some product \<Rightarrow>
             let photoSet = getPhotosByProductId env
                              (replace_first ''-r290'' [] (replace_first ''-r407c'' [] productId))
             in io_bind (fetch_photo_at env photoSet 0) (\<lambda>productImage.
                io_bind (fetch_photo_at env photoSet 1) (\<lambda>sideViewImage.
                let datasheetData = buildDatasheetData env product productImage sideViewImage;
                    documentHash = generateDocumentHash env
                                     (''Datasheet-'' @ ds_sku datasheetData @ ''-'' @ today env);
                    langsToGenerate =
                      (case dr_languages validated of
                         None \<Rightarrow> [dr_language validated]
                       | Some langs \<Rightarrow> if length langs > 0 then langs
                                       else [dr_language validated])
                in io_bind (render_each env
                              (DatasheetPDF datasheetData (dr_documentStatus validated)
                                 documentHash) langsToGenerate) (\<lambda>pdfBuffers.
                   if dr_returnPdf validated
                   then (case pdfBuffers of
                           [] \<Rightarrow> throw (TypeError_read ''undefined'' ''buffer'')
                         | first # others \<Rightarrow>
                             lift (pdf_response env (snd first)
                                     (''datasheet-'' @ ds_sku datasheetData @ ''.pdf'')))
                   else send_datasheet env validated product datasheetData documentHash
                          langsToGenerate pdfBuffers))))))"

definition datasheet_POST :: "'n env \<Rightarrow> request \<Rightarrow> ('n, 'n response) io" where
  "datasheet_POST env req =
     try_catch (datasheet_try env req)
       (catch_zod ''Error generating datasheet:'' ''Invalid request data''
          ''Failed to generate datasheet'')"

section \<open>Photo addendum: POST /api/desert-solutions/quotation/photo-addendum\<close>

definition photo_included :: "include_photos option \<Rightarrow> 'n photo \<Rightarrow> bool" where
  "photo_included includePhotos p =
     (case includePhotos of
        None \<Rightarrow> True
      | Some ip \<Rightarrow>
          if ip_actualModelOnly ip \<and> \<not> photo_isActualModel p then False
          else if \<not> ip_productOverview ip \<and> photo_type p = ''product_overview'' then False
          else if \<not> ip_detail ip \<and> photo_type p = ''detail'' then False
          else if \<not> ip_installation ip \<and> photo_type p = ''installation'' then False
          else True)"

text \<open>The inner loop: the photos whose image could be fetched, each with its data URL.\<close>

fun fetch_photos :: "'n env \<Rightarrow> 'n photo list \<Rightarrow> ('n, ('n photo \<times> string) list) io" where
  "fetch_photos env [] = ret []"
| "fetch_photos env (photo # photos) =
     io_bind (fetchImageAsDataUrl env (photo_s3Key photo)) (\<lambda>imageUrl.
     io_bind (case usable_url imageUrl of
                Some url \<Rightarrow> ret [(photo, url)]
              | None \<Rightarrow> io_bind (log LWarn (''Failed to fetch image: '' @ photo_s3Key photo))
                          (\<lambda>_. ret [])) (\<lambda>fetched.
     io_bind (fetch_photos env photos) (\<lambda>rest.
     ret (fetched @ rest))))"

text \<open>
  The outer loop: a product without a photo set is logged and skipped, and so is one of
  which no photo is left.
\<close>

fun collect_products ::
  "'n env \<Rightarrow> include_photos option \<Rightarrow> string list \<Rightarrow> ('n, 'n addendum_product list) io" where
  "collect_products env includePhotos [] = ret []"
| "collect_products env includePhotos (productId # productIds) =
     io_bind
       (case getPhotosByProductId env productId of
          None \<Rightarrow> io_bind (log LWarn (''Product not found: '' @ productId)) (\<lambda>_. ret [])
        | Some photoSet \<Rightarrow>
            io_bind (fetch_photos env (filter (photo_included includePhotos) (ps_photos photoSet)))
              (\<lambda>photosWithUrls.
            if length photosWithUrls > 0
            then ret [\<lparr>ap_productId = ps_productId photoSet,
                       ap_productName = ps_productName photoSet,
                       ap_sku = ps_sku photoSet,
                       ap_refrigerant = ps_refrigerant photoSet,
                       ap_photos = photosWithUrls\<rparr>]
            else ret [])) (\<lambda>collected.
     io_bind (collect_products env includePhotos productIds) (\<lambda>rest.
     ret (collected @ rest)))"

text \<open>
  The customer and the quotation number: those of the request, or those of the stored
  quotation when the request gives its identifier and no customer. \<open>Inl\<close> is the early 404.
\<close>

definition resolve_customer ::
  "('n::zero) env \<Rightarrow> 'n photo_addendum_request
     \<Rightarrow> ('n, 'n response + 'n json option \<times> 'n json option) io" where
  "resolve_customer env validated =
     (if truthy_str (par_quotationId validated) \<and> \<not> truthy (par_customer validated)
      then io_bind (io_call (DbGetQuotation (str_of (par_quotationId validated)))
                      (db_getQuotation env (str_of (par_quotationId validated)))) (\<lambda>result.
           if quotation_missing result then ret (Inl (not_found ''Quotation not found''))
           else io_bind (lift (customer_of (db_quotation result))) (\<lambda>customer.
                ret (Inr (customer, opt_prop ''quotationNumber'' (db_quotation result)))))
      else ret (Inr (par_customer validated, map_option JStr (par_quotationNumber validated))))"

definition addendum_product_json :: "'n env \<Rightarrow> 'n addendum_product \<Rightarrow> 'n json" where
  "addendum_product_json env p =
     JObj [(''productId'', JStr (ap_productId p)),
           (''productName'', JStr (ap_productName p)),
           (''photoCount'', JNum (number env (length (ap_photos p))))]"

definition send_addendum ::
  "('n::zero) env \<Rightarrow> 'n photo_addendum_request \<Rightarrow> 'n json option \<Rightarrow> 'n json option
     \<Rightarrow> 'n addendum_product list \<Rightarrow> ('n, 'n response) io" where
  "send_addendum env validated customer resolvedQuotationNumber productsWithPhotos =
     (let emailOptions = par_emailOptions validated;
          documentStatus = par_documentStatus validated;
          reference = (case resolvedQuotationNumber of
                         None \<Rightarrow> JStr ''N/A''
                       | Some v \<Rightarrow> if truthy resolvedQuotationNumber then v else JStr ''N/A'');
          documentHash = generateDocumentHash env
                           (''PhotoAddendum-'' @ template env (Some reference) @ ''-''
                            @ today env);
          doc = PhotoAddendumPDF
                  \<lparr>ad_quotationNumber = reference,
                   ad_customerName = opt_prop ''name'' customer,
                   ad_products = productsWithPhotos\<rparr> documentStatus documentHash
      in io_bind (io_call (RenderToBuffer doc) (renderToBuffer env doc)) (\<lambda>pdfBuffer.
         io_bind (lift (salutation_of customer)) (\<lambda>salutation.
         let totalPhotos = sum_list (map (\<lambda>p. length (ap_photos p)) productsWithPhotos);
             subject = nullish (email_option emailOptions eo_subject)
                         (companyName env @ '' - Product Photos''
                          @ (if truthy resolvedQuotationNumber
                             then '' ['' @ template env resolvedQuotationNumber @ '']'' else [])
                          @ status_suffix env documentStatus);
             mail = \<lparr>mail_from = Some (sender env),
                     mail_to = opt_prop ''email'' customer,
                     mail_cc = email_option emailOptions eo_cc,
                     mail_bcc = None,
                     mail_subject = subject,
                     mail_attachments =
                       Some [''photo-addendum''
                             @ (if truthy resolvedQuotationNumber
                                then ''-'' @ template env resolvedQuotationNumber else [])
                             @ ''.pdf'']\<rparr>
         in io_bind (io_call (SendEmail mail) (send_email env mail)) (\<lambda>_.
            ret (NextResponse_json
                   (obj [(''success'', Some (JBool True)),
                         (''message'', Some (JStr ''Photo addendum email sent successfully'')),
                         (''recipient'', opt_prop ''email'' customer),
                         (''quotationNumber'', resolvedQuotationNumber),
                         (''products'', Some (JArr (map (addendum_product_json env) productsWithPhotos))),
                         (''totalPhotos'', Some (JNum (number env totalPhotos)))]) 200)))))"

definition photo_addendum_try :: "('n::zero) env \<Rightarrow> request \<Rightarrow> ('n, 'n response) io" where
  "photo_addendum_try env req =
     io_bind (lift (req_json env req)) (\<lambda>parsed.
     io_bind (lift (schema_parse env (photoAddendumSchema env) parsed)) (\<lambda>validated.
     io_bind (resolve_customer env validated) (\<lambda>resolved.
     (case resolved of
        Inl early \<Rightarrow> ret early
      | Inr (customer, resolvedQuotationNumber) \<Rightarrow>
          if \<not> truthy (opt_prop ''email'' customer)
          then ret (NextResponse_json (JObj [(''error'', JStr ''Customer email is required'')]) 400)
          else
            io_bind (collect_products env (par_includePhotos validated)
                       (par_productIds validated)) (\<lambda>productsWithPhotos.
            if length productsWithPhotos = 0
            then ret (not_found ''No photos found for the specified products'')
            else send_addendum env validated customer resolvedQuotationNumber
                   productsWithPhotos)))))"

definition photo_addendum_POST :: "('n::zero) env \<Rightarrow> request \<Rightarrow> ('n, 'n response) io" where
  "photo_addendum_POST env req =
     try_catch (photo_addendum_try env req)
       (catch_zod ''Error sending photo addendum email:'' ''Invalid request data''
          ''Failed to send photo addendum email'')"

section \<open>The price rule, as claimed\<close>

text \<open>
  The price rule in the words of the amended claim: the custom price when one is given;
  otherwise the catalog price in the request's currency, looked up under the variant when
  a variant that is not the empty string is given and under the product otherwise; and the
  product's base price when that lookup gives no price, or the price zero.
\<close>

definition priced_as_claimed ::
  "('n::{zero,times}) env \<Rightarrow> string \<Rightarrow> 'n requested_item \<Rightarrow> 'n quotation_item \<Rightarrow> bool" where
  "priced_as_claimed env currency item built =
     (\<exists>product.
        getProductById env (ri_productId item) = Some product
        \<and> qi_unitPrice built =
            (case ri_customPrice item of
               Some custom \<Rightarrow> custom
             | None \<Rightarrow>
                 (case getProductPrice env
                         (case ri_variantId item of
                            None \<Rightarrow> ri_productId item
                          | Some variant \<Rightarrow> if variant = [] then ri_productId item else variant)
                         currency of
                    None \<Rightarrow> prod_basePrice product
                  | Some price \<Rightarrow> if price = 0 then prod_basePrice product else price))
        \<and> qi_totalPrice built = qi_unitPrice built * ri_quantity item
        \<and> qi_quantity built = ri_quantity item)"

section \<open>Double-precision numbers\<close>

text \<open>
  A JavaScript number is an IEEE 754 binary64 value. The finite ones are the products
  \<open>m * 2 ^ e\<close> of an integer of at most 53 bits and a power of two; \<open>Double m e\<close> is that
  product, with \<open>m\<close> odd, or both zero. The sum, the difference and the product of two of them
  are the exact result rounded to the nearest such value, to the one with the even mantissa on a tie.
  The bounds of the exponent (overflow to infinity, subnormal values), the sign of zero and
  \<open>NaN\<close> are left out: amounts of money are far from them.
\<close>

datatype double = Double (mantissa: int) (exponent: int)

function canonical :: "int \<Rightarrow> int \<Rightarrow> double" where
  "canonical m e =
     (if m = 0 then Double 0 0
      else if even m then canonical (m div 2) (e + 1)
      else Double m e)"
  by pat_completeness auto
termination
  by (relation "measure (\<lambda>(m, e). nat \<bar>m\<bar>)") auto

declare canonical.simps [simp del]

definition nearest_double :: "int \<Rightarrow> int \<Rightarrow> double" where
  "nearest_double m e =
     (let surplus = bitlen \<bar>m\<bar> - 53
      in if surplus \<le> 0 then canonical m e
         else
           let unit = 2 ^ nat surplus;
               q = \<bar>m\<bar> div unit;
               r = \<bar>m\<bar> mod unit;
               n = (if unit < 2 * r \<or> (2 * r = unit \<and> odd q) then q + 1 else q)
           in canonical (sgn m * n) (e + surplus))"

definition aligned :: "double \<Rightarrow> int \<Rightarrow> int" where
  "aligned a e = mantissa a * 2 ^ nat (exponent a - e)"

instantiation double :: "{zero, plus, minus, times}"
begin

definition zero_double :: double where
  "zero_double = Double 0 0"

definition plus_double :: "double \<Rightarrow> double \<Rightarrow> double" where
  "plus_double a b =
     (let e = min (exponent a) (exponent b) in nearest_double (aligned a e + aligned b e) e)"

definition minus_double :: "double \<Rightarrow> double \<Rightarrow> double" where
  "minus_double a b =
     (let e = min (exponent a) (exponent b) in nearest_double (aligned a e - aligned b e) e)"

definition times_double :: "double \<Rightarrow> double \<Rightarrow> double" where
  "times_double a b = nearest_double (mantissa a * mantissa b) (exponent a + exponent b)"

instance ..

end


section \<open>Photos that a requested product yields\<close>

text \<open>
  A requested product yields a photo, in the words of the claim about the photo addendum:
  the product has a photo set, and the image of one of the photos that the request
  includes can be fetched, which is to say that \<open>getFile\<close> answers with a file that has a
  body.
\<close>

definition fetchable :: "'n env \<Rightarrow> string \<Rightarrow> bool" where
  "fetchable env s3Key =
     (case getFile env s3Key of
        Inl e \<Rightarrow> False
      | Inr None \<Rightarrow> False
      | Inr (Some file) \<Rightarrow> file_Body file \<noteq> None)"

definition yields_photo :: "'n env \<Rightarrow> include_photos option \<Rightarrow> string \<Rightarrow> bool" where
  "yields_photo env includePhotos productId =
     (case getPhotosByProductId env productId of
        None \<Rightarrow> False
      | Some photoSet \<Rightarrow>
          list_ex (\<lambda>photo. photo_included includePhotos photo \<and> fetchable env (photo_s3Key photo))
            (ps_photos photoSet))"

text \<open>The language of the first rendering of a datasheet.\<close>

definition first_language :: "datasheet_request \<Rightarrow> string" where
  "first_language validated =
     (case dr_languages validated of
        None \<Rightarrow> dr_language validated
      | Some [] \<Rightarrow> dr_language validated
      | Some (lang # langs) \<Rightarrow> lang)"

section \<open>Exceptions of traced calls\<close>

text \<open>
  What a traced call threw. The event of a call carries the call's arguments, so the
  environment tells how the collaborator answered it; \<open>failure\<close> is the exception of an
  answer, if it is one.
\<close>

definition failure :: "exn + 'a \<Rightarrow> exn option" where
  "failure r = (case r of Inl e \<Rightarrow> Some e | Inr x \<Rightarrow> None)"

fun thrown :: "'n env \<Rightarrow> 'n call \<Rightarrow> exn option" where
  "thrown env (Log l m) = None"
| "thrown env (MercuryInvoicesGet invoiceId) = failure (mercury_invoices_get env invoiceId)"
| "thrown env (MercuryCustomersGet customerId) = failure (mercury_customers_get env customerId)"
| "thrown env (MercuryCustomersCreate input) = failure (mercury_customers_create env input)"
| "thrown env (MercuryInvoicesCreate input) = failure (mercury_invoices_create env input)"
| "thrown env (SendEmail mail) = failure (send_email env mail)"
| "thrown env (DbGetQuotation quotationId) = failure (db_getQuotation env quotationId)"
| "thrown env (DbCreateQuotation row) = failure (db_createQuotation env row)"
| "thrown env (RenderToBuffer doc) = failure (renderToBuffer env doc)"
| "thrown env (GetFile s3Key) = failure (getFile env s3Key)"
| "thrown env (GetPresignedUrl s3Key expiresIn) = failure (getPresignedUrl env s3Key expiresIn)"

fun is_getFile :: "'n call \<Rightarrow> bool" where
  "is_getFile (GetFile s3Key) = True"
| "is_getFile c = False"

text \<open>
  The exceptions that the calls of a trace threw, in the order of the calls, those of
  \<open>getFile\<close> left out: the handlers call \<open>getFile\<close> from \<open>fetchImageAsDataUrl\<close> only.
\<close>

fun escaping :: "'n env \<Rightarrow> 'n call list \<Rightarrow> exn list" where
  "escaping env [] = []"
| "escaping env (c # t) =
     (if is_getFile c then escaping env t
      else (case thrown env c of None \<Rightarrow> escaping env t | Some e \<Rightarrow> e # escaping env t))"

text \<open>
  A computation lets exceptions through when none of its calls threw, or one did, and
  the computation ended with what it threw.
\<close>

definition propagating :: "'n env \<Rightarrow> ('n, 'a) io \<Rightarrow> bool" where
  "propagating env m \<longleftrightarrow>
     escaping env (snd m) = [] \<or> (\<exists>e. escaping env (snd m) = [e] \<and> fst m = Inl e)"

section \<open>The PDF response, as claimed\<close>


section \<open>Sample requests and environments\<close>

text \<open>
  A concrete environment over integer amounts, in which every collaborator answers, and
  the requests at which the theorems below are evaluated. The catalog has one product,
  with two photos; every schema accepts any body but \<open>null\<close>.
\<close>

definition sample_invoice :: "int invoice" where
  "sample_invoice =
     \<lparr>inv_id = ''inv_1'', inv_number = ''INV-0001'', inv_status = ''open'', inv_total = 1200,
      inv_paidAmount = Some 200, inv_dueDate = ''2025-07-01'', inv_paidAt = None,
      inv_paymentUrl = ''https://pay.example/inv_1'', inv_customerId = ''cus_1''\<rparr>"

definition sample_customer :: mercury_customer where
  "sample_customer =
     \<lparr>mc_id = ''cus_1'', mc_name = ''Ada Lovelace'', mc_email = ''ada@example.com''\<rparr>"

definition sample_product :: "int product" where
  "sample_product =
     \<lparr>prod_id = ''ds-acsc-400'', prod_category = ''chillers'',
      prod_name = ''Desert Solutions ACSC-400'', prod_shortDescription = ''Air-cooled chiller'',
      prod_basePrice = 4500, prod_specifications = [(''SKU'', ''DS-ACSC-400'')],
      prod_images = [], prod_defaultWarranty = None, prod_defaultLeadTime = None,
      prod_variants = None\<rparr>"

definition front_photo :: "int photo" where
  "front_photo =
     \<lparr>photo_s3Key = ''photos/front.jpg'', photo_type = ''product_overview'',
      photo_isActualModel = True, photo_other = []\<rparr>"

definition detail_photo :: "int photo" where
  "detail_photo =
     \<lparr>photo_s3Key = ''photos/detail.jpg'', photo_type = ''detail'',
      photo_isActualModel = False, photo_other = []\<rparr>"

definition sample_photo_set :: "int photo_set" where
  "sample_photo_set =
     \<lparr>ps_productId = ''ds-acsc-400'', ps_productName = ''ACSC-400'', ps_sku = ''DS-ACSC-400'',
      ps_refrigerant = ''R290'', ps_photos = [front_photo, detail_photo]\<rparr>"

definition sample_lookup :: "'a \<Rightarrow> string \<Rightarrow> 'a option" where
  "sample_lookup x productId = (if productId = ''ds-acsc-400'' then Some x else None)"

definition customer_json :: "int json" where
  "customer_json = JObj [(''name'', JStr ''Ada Lovelace''), (''email'', JStr ''ada@example.com'')]"

text \<open>
  Three quotations as request bodies, the second with an empty quotation number, the
  third with a line feed in its number.
\<close>

definition quotation_text :: string where
  \<open>quotation_text =
     ''{"quotationNumber":"QDS-1","customer":{"name":"Ada Lovelace","email":"ada@example.com"},"items":[]}''\<close>

definition quotation_json :: "int json" where
  "quotation_json =
     JObj [(''quotationNumber'', JStr ''QDS-1''), (''customer'', customer_json),
           (''items'', JArr [])]"

definition unnumbered_quotation_text :: string where
  \<open>unnumbered_quotation_text = ''{"quotationNumber":"","customer":{},"items":[]}''\<close>

definition unnumbered_quotation_json :: "int json" where
  "unnumbered_quotation_json =
     JObj [(''quotationNumber'', JStr []), (''customer'', JObj []), (''items'', JArr [])]"

definition two_line_quotation_text :: string where
  \<open>two_line_quotation_text =
     ''{"quotationNumber":"a'' @ [CHR 0x5C] @ ''nb","customer":{},"items":[1]}''\<close>

definition two_line_quotation_json :: "int json" where
  "two_line_quotation_json =
     JObj [(''quotationNumber'', JStr (''a'' @ [CHR 0x0A] @ ''b'')), (''customer'', JObj []),
           (''items'', JArr [JNum 1])]"

text \<open>\<open>JSON.parse\<close> on the bodies the sample requests carry.\<close>

definition sample_JSON_parse :: "string \<Rightarrow> exn + int json" where
  "sample_JSON_parse s =
     (if s = ''null'' then Inr JNull
      else if s = ''{}'' then Inr (JObj [])
      else if s = quotation_text then Inr quotation_json
      else if s = unnumbered_quotation_text then Inr unnumbered_quotation_json
      else if s = two_line_quotation_text then Inr two_line_quotation_json
      else Inl (Error ''Unexpected end of JSON input''))"

definition sample_schema :: "'v \<Rightarrow> int json \<Rightarrow> zod_issue list + 'v" where
  "sample_schema validated v =
     (if v = JNull then Inl [Issue ''invalid_type'' []] else Inr validated)"

definition sample_address_customer :: customer_input where
  "sample_address_customer =
     \<lparr>ci_name = ''Ada Lovelace'', ci_email = ''ada@example.com'', ci_phone = None,
      ci_address = None\<rparr>"

definition sample_invoice_request :: "int create_invoice_request" where
  "sample_invoice_request =
     \<lparr>cir_quotation =
        \<lparr>iq_quotationNumber = ''QDS-1'', iq_customer = sample_address_customer,
         iq_items = [], iq_subtotal = 4500, iq_tax = 0, iq_shipping = 0, iq_discount = 0,
         iq_total = 4500, iq_notes = None\<rparr>,
      cir_sendEmail = False, cir_dueInDays = 30\<rparr>"

definition sample_quotation_request :: "int create_quotation_request" where
  "sample_quotation_request =
     \<lparr>cqr_customer = customer_json,
      cqr_items = [\<lparr>ri_productId = ''ds-acsc-400'', ri_variantId = None, ri_quantity = 2,
                    ri_customPrice = None\<rparr>],
      cqr_terms = None, cqr_notes = None, cqr_internalNotes = None, cqr_validityDays = None,
      cqr_currency = ''USD''\<rparr>"

definition sample_datasheet_request :: datasheet_request where
  "sample_datasheet_request =
     \<lparr>dr_productId = ''ds-acsc-400'', dr_variantId = None, dr_customer = None,
      dr_emailOptions = None, dr_documentStatus = ''WIP'', dr_language = ''en'',
      dr_languages = None, dr_returnPdf = True\<rparr>"

definition sample_addendum_request :: "int photo_addendum_request" where
  "sample_addendum_request =
     \<lparr>par_quotationId = None, par_quotationNumber = Some ''QDS-1'',
      par_productIds = [''ds-acsc-400'', ''unknown''], par_customer = Some customer_json,
      par_emailOptions = None, par_includePhotos = None, par_documentStatus = ''WIP''\<rparr>"

definition sample_email_request :: "int email_quotation_request" where
  "sample_email_request =
     \<lparr>eqr_quotationId = None, eqr_quotation = Some quotation_json,
      eqr_emailOptions = None, eqr_documentStatus = ''WIP''\<rparr>"

text \<open>
  \<open>toUpperCase\<close> on the ASCII letters, which is what it does to the identifiers of the
  sample catalog. The sample clock gives the same date a month ahead, and no date for a
  number of days beyond the range of dates.
\<close>

definition ascii_upper :: "string \<Rightarrow> string" where
  "ascii_upper s =
     map (\<lambda>c. let n = (of_char c :: nat)
               in if 97 \<le> n \<and> n \<le> 122 then char_of (n - 32) else c) s"

definition sample_String_of_number :: "int \<Rightarrow> string" where
  "sample_String_of_number n = (if n < 0 then ''-'' @ decimal (nat (- n)) else decimal (nat n))"

definition sample_env :: "int env" where
  "sample_env =
     \<lparr>webhookSecret = Some ''whsec_test'',
      companyName = ''Desert Solutions'',
      companyEmail = ''sales@example.com'',
      defaultValidityDays = 30,
      defaultTaxRate = Some 0,
      JSON_parse = sample_JSON_parse,
      zod_message = (\<lambda>issues. ''Invalid input''),
      number = int,
      parseInt = (\<lambda>s. 60),
      String_of_number = sample_String_of_number,
      toUpperCase = ascii_upper,
      invalid_key_message = ''The key argument must be of type string'',
      invalid_header_message = (\<lambda>v. ''Invalid header value''),
      today = ''2025-06-01'',
      now = ''2025-06-01T00:00:00.000Z'',
      date_in_days = (\<lambda>n. if \<bar>n\<bar> < 99000000 then Some ''2025-07-01T00:00:00.000Z''
                          else None),
      createInvoiceSchema = sample_schema sample_invoice_request,
      createQuotationSchema = sample_schema sample_quotation_request,
      datasheetSchema = sample_schema sample_datasheet_request,
      photoAddendumSchema = sample_schema sample_addendum_request,
      emailQuotationSchema = sample_schema sample_email_request,
      getProductById = sample_lookup sample_product,
      getProductWithVariant = (\<lambda>productId variantId. sample_lookup sample_product productId),
      getProductPrice = (\<lambda>productId currency. None),
      getProductsByCategory = (\<lambda>category. [sample_product]),
      allProducts = [sample_product],
      product_json = (\<lambda>p. JObj [(''id'', JStr (prod_id p))]),
      getPhotosByProductId = sample_lookup sample_photo_set,
      generateQuotationNumber = (\<lambda>prefix. nullish prefix ''Q'' @ ''-1''),
      calculateQuotationTotals =
        (\<lambda>q. \<lparr>tot_subtotal = 0, tot_tax = 0, tot_shipping = 0, tot_discount = 0, tot_total = 0\<rparr>),
      getStatusLabel = (\<lambda>documentStatus. documentStatus),
      generateDocumentHash = (\<lambda>s. ''hash''),
      quotation_email_bodies = (\<lambda>quotation customer. Inr ()),
      mercury_invoices_get = (\<lambda>invoiceId. Inr sample_invoice),
      mercury_customers_get = (\<lambda>customerId. Inr sample_customer),
      mercury_customers_create = (\<lambda>input. Inr sample_customer),
      mercury_invoices_create = (\<lambda>input. Inr sample_invoice),
      send_email = (\<lambda>mail. Inr ()),
      db_getQuotation = (\<lambda>quotationId. Inr \<lparr>db_success = False, db_quotation = None\<rparr>),
      db_createQuotation = (\<lambda>row. Inr (Some quotation_json)),
      renderToBuffer = (\<lambda>doc. Inr [0x25, 0x50, 0x44, 0x46]),
      getFile = (\<lambda>s3Key. Inr (Some \<lparr>file_Body = Some [0xFF, 0xD8], file_ContentType = None\<rparr>)),
      getPresignedUrl = (\<lambda>s3Key expiresIn. Inr (''https://cdn.example/'' @ s3Key))\<rparr>"

text \<open>A webhook delivery signed with the sample secret, and one without headers.\<close>

definition signed_webhook :: "string \<Rightarrow> string \<Rightarrow> request" where
  "signed_webhook timestamp text =
     \<lparr>req_headers =
        [''X-Webhook-Signature'' \<mapsto>
           hex_encode (hmac_sha256 (bytes_of_string ''whsec_test'')
                         (bytes_of_string (timestamp @ ''.'' @ text))),
         ''X-Webhook-Timestamp'' \<mapsto> timestamp],
      req_text = text, req_query = Map.empty, req_productId = []\<rparr>"

definition unsigned_webhook :: request where
  "unsigned_webhook =
     \<lparr>req_headers = Map.empty, req_text = ''{}'', req_query = Map.empty, req_productId = []\<rparr>"

text \<open>A \<open>POST\<close> with a body, and a \<open>GET\<close> with query parameters on a product's route.\<close>

definition post :: "string \<Rightarrow> request" where
  "post text =
     \<lparr>req_headers = Map.empty, req_text = text, req_query = Map.empty, req_productId = []\<rparr>"

definition get :: "string \<Rightarrow> (string \<times> string) list \<Rightarrow> request" where
  "get productId query =
     \<lparr>req_headers = Map.empty, req_text = [], req_query = map_of query,
      req_productId = productId\<rparr>"


definition storage_down_env :: "int env" where
  "storage_down_env = sample_env\<lparr>getFile := (\<lambda>s3Key. Inl (Error ''storage unavailable''))\<rparr>"

text \<open>The sample environment with a quotation request for a product the catalog lacks.\<close>

definition unknown_product_env :: "int env" where
  "unknown_product_env =
     sample_env\<lparr>createQuotationSchema :=
       sample_schema
         (sample_quotation_request
            \<lparr>cqr_items := [\<lparr>ri_productId = ''unknown'', ri_variantId = None, ri_quantity = 1,
                             ri_customPrice = None\<rparr>]\<rparr>)\<rparr>"

text \<open>The sample environment with a catalog that prices every product at zero.\<close>

definition zero_price_env :: "int env" where
  "zero_price_env = sample_env\<lparr>getProductPrice := (\<lambda>productId currency. Some 0)\<rparr>"


text \<open>
  An invoice of 0.11 of which 0.04 is paid: the doubles nearest to these amounts are
  \<open>7926335344172073 * 2 ^ -56\<close> and \<open>5764607523034235 * 2 ^ -57\<close>.
\<close>

definition cents_invoice :: "double invoice" where
  "cents_invoice =
     \<lparr>inv_id = ''inv_2'', inv_number = ''INV-0002'', inv_status = ''open'',
      inv_total = Double 7926335344172073 (- 56),
      inv_paidAmount = Some (Double 5764607523034235 (- 57)),
      inv_dueDate = ''2025-07-01'', inv_paidAt = None,
      inv_paymentUrl = ''https://pay.example/inv_2'', inv_customerId = ''cus_1''\<rparr>"

text \<open>An environment over the doubles whose payment provider holds that invoice.\<close>

definition cents_env :: "double env" where
  "cents_env =
     \<lparr>webhookSecret = None,
      companyName = ''Desert Solutions'',
      companyEmail = ''sales@example.com'',
      defaultValidityDays = Double 15 1,
      defaultTaxRate = None,
      JSON_parse = (\<lambda>text. Inl (Error ''Unexpected end of JSON input'')),
      zod_message = (\<lambda>issues. ''Invalid input''),
      number = (\<lambda>n. nearest_double (int n) 0),
      parseInt = (\<lambda>s. Double 15 2),
      String_of_number = (\<lambda>n. []),
      toUpperCase = ascii_upper,
      invalid_key_message = ''The key argument must be of type string'',
      invalid_header_message = (\<lambda>v. ''Invalid header value''),
      today = ''2025-06-01'',
      now = ''2025-06-01T00:00:00.000Z'',
      date_in_days = (\<lambda>n. Some ''2025-07-01T00:00:00.000Z''),
      createInvoiceSchema = (\<lambda>v. Inl []),
      createQuotationSchema = (\<lambda>v. Inl []),
      datasheetSchema = (\<lambda>v. Inl []),
      photoAddendumSchema = (\<lambda>v. Inl []),
      emailQuotationSchema = (\<lambda>v. Inl []),
      getProductById = (\<lambda>productId. None),
      getProductWithVariant = (\<lambda>productId variantId. None),
      getProductPrice = (\<lambda>productId currency. None),
      getProductsByCategory = (\<lambda>category. []),
      allProducts = [],
      product_json = (\<lambda>p. JObj [(''id'', JStr (prod_id p))]),
      getPhotosByProductId = (\<lambda>productId. None),
      generateQuotationNumber = (\<lambda>prefix. nullish prefix ''Q'' @ ''-1''),
      calculateQuotationTotals =
        (\<lambda>q. \<lparr>tot_subtotal = 0, tot_tax = 0, tot_shipping = 0, tot_discount = 0, tot_total = 0\<rparr>),
      getStatusLabel = (\<lambda>documentStatus. documentStatus),
      generateDocumentHash = (\<lambda>s. ''hash''),
      quotation_email_bodies = (\<lambda>quotation customer. Inr ()),
      mercury_invoices_get = (\<lambda>invoiceId. Inr cents_invoice),
      mercury_customers_get = (\<lambda>customerId. Inr sample_customer),
      mercury_customers_create = (\<lambda>input. Inr sample_customer),
      mercury_invoices_create = (\<lambda>input. Inr cents_invoice),
      send_email = (\<lambda>mail. Inr ()),
      db_getQuotation = (\<lambda>quotationId. Inr \<lparr>db_success = False, db_quotation = None\<rparr>),
      db_createQuotation = (\<lambda>row. Inr None),
      renderToBuffer = (\<lambda>doc. Inr [0x25, 0x50, 0x44, 0x46]),
      getFile = (\<lambda>s3Key. Inr None),
      getPresignedUrl = (\<lambda>s3Key expiresIn. Inr (''https://cdn.example/'' @ s3Key))\<rparr>"

text \<open>
  A catalog over the doubles with one product, at the base price 0.1
  (\<open>3602879701896397 * 2 ^ -55\<close>).
\<close>

definition tenth_product :: "double product" where
  "tenth_product =
     \<lparr>prod_id = ''ds-part'', prod_category = ''parts'', prod_name = ''Spare part'',
      prod_shortDescription = ''Spare part'', prod_basePrice = Double 3602879701896397 (- 55),
      prod_specifications = [], prod_images = [], prod_defaultWarranty = None,
      prod_defaultLeadTime = None, prod_variants = None\<rparr>"

text \<open>A request for three of them, and the environment that receives it.\<close>

definition tenth_request :: "double create_quotation_request" where
  "tenth_request =
     \<lparr>cqr_customer = JObj [(''name'', JStr ''Ada Lovelace''),
                           (''email'', JStr ''ada@example.com'')],
      cqr_items = [\<lparr>ri_productId = ''ds-part'', ri_variantId = None, ri_quantity = Double 3 0,
                    ri_customPrice = None\<rparr>],
      cqr_terms = None, cqr_notes = None, cqr_internalNotes = None, cqr_validityDays = None,
      cqr_currency = ''USD''\<rparr>"

definition tenth_env :: "double env" where
  "tenth_env =
     cents_env\<lparr>JSON_parse := (\<lambda>text. Inr (JObj [])),
               createQuotationSchema := (\<lambda>v. Inr tenth_request),
               getProductById := (\<lambda>productId. Some tenth_product)\<rparr>"

text \<open>The sample environment with a request for a validity of a thousand million days.\<close>

definition far_validity_env :: "int env" where
  "far_validity_env =
     sample_env\<lparr>createQuotationSchema :=
       sample_schema (sample_quotation_request\<lparr>cqr_validityDays := Some 1000000000\<rparr>)\<rparr>"

text \<open>The sample environment without photo sets.\<close>

definition no_photos_env :: "int env" where
  "no_photos_env = sample_env\<lparr>getPhotosByProductId := (\<lambda>productId. None)\<rparr>"

section \<open>Computations: projections\<close>

lemma fst_io_bind:
  "fst (io_bind m f) = (case fst m of Inl e \<Rightarrow> Inl e | Inr x \<Rightarrow> fst (f x))"
  by (auto simp: io_bind_def split: prod.splits sum.splits)

lemma snd_io_bind:
  "snd (io_bind m f) = (case fst m of Inl e \<Rightarrow> snd m | Inr x \<Rightarrow> snd m @ snd (f x))"
  by (auto simp: io_bind_def split: prod.splits sum.splits)

lemma fst_try_catch:
  "fst (try_catch m h) = (case fst m of Inl e \<Rightarrow> fst (h e) | Inr x \<Rightarrow> Inr x)"
  by (auto simp: try_catch_def split: prod.splits sum.splits)

lemma snd_try_catch:
  "snd (try_catch m h) = (case fst m of Inl e \<Rightarrow> snd m @ snd (h e) | Inr x \<Rightarrow> snd m)"
  by (auto simp: try_catch_def split: prod.splits sum.splits)

lemma io_simps [simp]:
  "fst (ret x) = Inr x" "snd (ret x) = []"
  "fst (throw e) = Inl e" "snd (throw e) = []"
  "fst (lift r) = r" "snd (lift r) = []"
  "fst (io_call c r) = r" "snd (io_call c r) = [c]"
  "fst (log l m) = Inr ()" "snd (log l m) = [Log l m]"
  by (simp_all add: ret_def throw_def lift_def io_call_def log_def)

lemma bind_ret: "io_bind (ret x) f = f x"
  by (simp add: io_bind_def ret_def split: prod.splits)

lemma bind_lift_Inr: "io_bind (lift (Inr x)) f = f x"
  by (simp add: io_bind_def lift_def split: prod.splits)

lemma bind_lift_Inl: "io_bind (lift (Inl e)) f = throw e"
  by (simp add: io_bind_def lift_def throw_def)

section \<open>Catch blocks\<close>




lemma status_failure_response [simp]: "status (failure_response label error) = 500"
  by (simp add: failure_response_def NextResponse_json_def)


lemma status_not_found [simp]: "status (not_found label) = 404"
  by (simp add: not_found_def NextResponse_json_def)

lemma status_of_catch_all:
  "fst m = Inr r \<Longrightarrow> status_of (try_catch m h) = Some (status r)"
  by (simp add: status_of_def response_of_def fst_try_catch)

lemma status_of_catch_zod:
  "status_of (try_catch m (catch_zod logged invalid failed))
     = (case fst m of
          Inl (ZodError issues s) \<Rightarrow> Some 400
        | Inl (Error s) \<Rightarrow> Some 500
        | Inr r \<Rightarrow> Some (status r))"
  by (simp add: status_of_def response_of_def fst_try_catch catch_zod_def fst_io_bind
      invalid_response_def failure_response_def NextResponse_json_def
      split: sum.splits exn.splits)


section \<open>Hexadecimal round trip\<close>

lemma hex_digits_decode: "list_all (\<lambda>n. hex_value (hex_digit n) = Some n) [0..<16]"
  by (simp add: hex_value_def hex_digit_def upt_rec)

lemma hex_value_hex_digit: "n < 16 \<Longrightarrow> hex_value (hex_digit n) = Some n"
  using hex_digits_decode by (simp add: list_all_iff)

text \<open>Decoding the digest's hexadecimal form gives the digest back, whatever its bytes.\<close>

lemma Buffer_from_hex_encode: "Buffer_from_hex (hex_encode bs) = bs"
proof (induction bs)
  case Nil
  then show ?case by (simp add: hex_encode_def)
next
  case (Cons b bs)
  have lt: "unat b div 16 < 16"
    using unsigned_less [of b, where 'a = nat] by simp
  have "of_nat (16 * (unat b div 16) + unat b mod 16) = b"
    by simp
  with Cons lt show ?case
    by (simp add: hex_encode_def hex_value_hex_digit)
qed

section \<open>The digest has 32 bytes\<close>

lemma length_sha256_round: "length (sha256_round s kw) = 8"
  by (simp add: sha256_round_def Let_def)

lemma length_foldl_round: "length hs = 8 \<Longrightarrow> length (foldl sha256_round hs xs) = 8"
  by (induction xs arbitrary: hs) (simp_all add: length_sha256_round)

lemma length_compress: "length hs = 8 \<Longrightarrow> length (compress hs blk) = 8"
  by (simp add: compress_def length_foldl_round)

lemma length_foldl_compress: "length hs = 8 \<Longrightarrow> length (foldl compress hs bs) = 8"
  by (induction bs arbitrary: hs) (simp_all add: length_compress)

lemma length_concat_bytes: "length (concat (map bytes_of_u32 ws)) = 4 * length ws"
  by (induction ws) (simp_all add: bytes_of_u32_def)

lemma length_sha256: "length (sha256 m) = 32"
  by (simp add: sha256_def Let_def length_concat_bytes length_foldl_compress sha256_H0_def)

lemma length_hmac_sha256: "length (hmac_sha256 key msg) = 32"
  by (simp add: hmac_sha256_def Let_def length_sha256)

lemma length_hex_encode: "length (hex_encode bs) = 2 * length bs"
  by (induction bs) (simp_all add: hex_encode_def)

lemma hex_hmac_not_empty: "hex_encode (hmac_sha256 key msg) \<noteq> []"
proof
  assume "hex_encode (hmac_sha256 key msg) = []"
  then have "length (hex_encode (hmac_sha256 key msg)) = 0" by simp
  then show False by (simp add: length_hex_encode length_hmac_sha256)
qed

text \<open>The digest agrees with the published one: SHA-256 of \<open>abc\<close> (FIPS 180-4).\<close>

lemma sha256_abc:
  "hex_encode (sha256 (bytes_of_string ''abc''))
   = ''ba7816bf8f01cfea414140de5dae2223b00361a396177a9cb410ff61f20015ad''"
  by code_simp

lemma signature_invalid_eq: "signature_invalid a b = Inr (a \<noteq> b)"
  by (auto simp: signature_invalid_def timingSafeEqual_def)

section \<open>Payment webhook\<close>

lemma webhook_process_status:
  "fst (webhook_process env text) = Inr r \<Longrightarrow> status r = 200"
  by (auto simp: webhook_process_def fst_io_bind NextResponse_json_def split: sum.splits)

lemma signed_webhook_headers:
  "req_headers (signed_webhook ts text) ''X-Webhook-Signature'' =
     Some (hex_encode (hmac_sha256 (bytes_of_string ''whsec_test'')
             (bytes_of_string (ts @ ''.'' @ text))))"
  "req_headers (signed_webhook ts text) ''X-Webhook-Timestamp'' = Some ts"
  "req_text (signed_webhook ts text) = text"
  by (simp_all add: signed_webhook_def)

text \<open>
  C1, as the code has it. With the webhook secret configured, the handler answers 401
  exactly when the signature header or the timestamp header is missing or empty, or the
  signature header, decoded from hexadecimal, is not the HMAC-SHA256 digest of
  \<open>timestamp.body\<close> under the secret.
\<close>

theorem webhook_401_iff:
  assumes "webhookSecret env = Some key"
  shows "status_of (webhook_POST env req) = Some 401 \<longleftrightarrow>
     (\<not> truthy_str (req_headers req ''X-Webhook-Signature'')
      \<or> \<not> truthy_str (req_headers req ''X-Webhook-Timestamp'')
      \<or> Buffer_from_hex (str_of (req_headers req ''X-Webhook-Signature''))
          \<noteq> hmac_sha256 (bytes_of_string key)
               (bytes_of_string
                  (str_of (req_headers req ''X-Webhook-Timestamp'') @ ''.'' @ req_text req)))"
  using assms webhook_process_status [of env "req_text req"]
  by (auto simp: status_of_def response_of_def webhook_POST_def webhook_try_def fst_try_catch
      fst_io_bind Let_def createHmac_sha256_hex_def Buffer_from_hex_encode signature_invalid_eq
      NextResponse_json_def catch_all_def failure_response_def split: sum.splits)

theorem webhook_401_iff_witness:
  "webhookSecret sample_env = Some ''whsec_test''
   \<and> status_of (webhook_POST sample_env unsigned_webhook) = Some 401
   \<and> status_of (webhook_POST sample_env (signed_webhook ''1700000000'' ''{}'')) \<noteq> Some 401"
  using webhook_401_iff [of sample_env "''whsec_test''" unsigned_webhook]
    webhook_401_iff [of sample_env "''whsec_test''" "signed_webhook ''1700000000'' ''{}''"]
  by (simp add: sample_env_def unsigned_webhook_def signed_webhook_headers truthy_str_def
      str_of_def Buffer_from_hex_encode hex_hmac_not_empty)

text \<open>
  C1 as stated fails: a delivery whose timestamp header is present but empty, and whose
  signature is the digest of \<open>.body\<close> under the secret, has both headers and a matching
  signature, and is answered 401.
\<close>

theorem webhook_empty_timestamp_counterexample:
  "req_headers (signed_webhook [] ''{}'') ''X-Webhook-Signature'' \<noteq> None
   \<and> req_headers (signed_webhook [] ''{}'') ''X-Webhook-Timestamp'' = Some []
   \<and> Buffer_from_hex (str_of (req_headers (signed_webhook [] ''{}'') ''X-Webhook-Signature''))
       = hmac_sha256 (bytes_of_string ''whsec_test'') (bytes_of_string (''.'' @ ''{}''))
   \<and> webhookSecret sample_env = Some ''whsec_test''
   \<and> status_of (webhook_POST sample_env (signed_webhook [] ''{}'')) = Some 401"
  by (simp add: signed_webhook_headers str_of_def Buffer_from_hex_encode sample_env_def
      status_of_def response_of_def webhook_POST_def webhook_try_def fst_try_catch
      truthy_str_def NextResponse_json_def)

section \<open>Payment webhook: events that are not handled\<close>

lemma get_prop_Some: "v \<noteq> JNull \<Longrightarrow> get_prop k (Some v) = Inr (opt_prop k (Some v))"
  by (cases v) simp_all

lemma downstream_simps [simp]:
  "downstream [] = []"
  "downstream (Log l m # t) = downstream t"
  "downstream (t @ u) = downstream t @ downstream u"
  by (simp_all add: downstream_def)

lemma dispatch_unhandled:
  assumes "type \<noteq> Some (JStr ''invoice.paid'')"
    and "type \<noteq> Some (JStr ''invoice.payment_failed'')"
    and "type \<noteq> Some (JStr ''invoice.overdue'')"
  shows "dispatch_event env type data = log LWarn ''Unhandled webhook event type:''"
  using assms by (simp add: dispatch_event_def)

lemma webhook_process_unhandled:
  assumes "JSON_parse env text = Inr event" and "event \<noteq> JNull"
    and "opt_prop ''type'' (Some event) \<noteq> Some (JStr ''invoice.paid'')"
    and "opt_prop ''type'' (Some event) \<noteq> Some (JStr ''invoice.payment_failed'')"
    and "opt_prop ''type'' (Some event) \<noteq> Some (JStr ''invoice.overdue'')"
  shows "webhook_process env text =
           (Inr (NextResponse_json (JObj [(''received'', JBool True)]) 200),
            [Log LInfo ''Received payment webhook:'', Log LWarn ''Unhandled webhook event type:''])"
  using assms
  by (simp add: webhook_process_def get_prop_Some dispatch_unhandled io_bind_def lift_def
      log_def ret_def)

text \<open>
  C10, as the code has it. When the signature verifies, the body parses to a JSON value other
  than \<open>null\<close>, and its \<open>type\<close> is none of the three handled event types, the handler
  answers 200 with \<open>{received: true}\<close> and calls no downstream collaborator: the trace
  holds two log lines and nothing else.
\<close>

theorem webhook_unhandled_event:
  assumes "webhookSecret env = Some key"
    and "truthy_str (req_headers req ''X-Webhook-Signature'')"
    and "truthy_str (req_headers req ''X-Webhook-Timestamp'')"
    and "Buffer_from_hex (str_of (req_headers req ''X-Webhook-Signature''))
           = hmac_sha256 (bytes_of_string key)
               (bytes_of_string
                  (str_of (req_headers req ''X-Webhook-Timestamp'') @ ''.'' @ req_text req))"
    and "JSON_parse env (req_text req) = Inr event" and "event \<noteq> JNull"
    and "opt_prop ''type'' (Some event) \<noteq> Some (JStr ''invoice.paid'')"
    and "opt_prop ''type'' (Some event) \<noteq> Some (JStr ''invoice.payment_failed'')"
    and "opt_prop ''type'' (Some event) \<noteq> Some (JStr ''invoice.overdue'')"
  shows "response_of (webhook_POST env req)
           = Some (NextResponse_json (JObj [(''received'', JBool True)]) 200)
         \<and> downstream (trace_of (webhook_POST env req)) = []"
  using assms(1-4) webhook_process_unhandled [OF assms(5-9)]
  by (simp add: response_of_def trace_of_def webhook_POST_def webhook_try_def Let_def
      fst_try_catch snd_try_catch fst_io_bind snd_io_bind createHmac_sha256_hex_def
      Buffer_from_hex_encode signature_invalid_eq)

theorem webhook_unhandled_event_witness:
  "webhookSecret sample_env = Some ''whsec_test''
   \<and> JSON_parse sample_env (req_text (signed_webhook ''1700000000'' ''{}'')) = Inr (JObj [])
   \<and> response_of (webhook_POST sample_env (signed_webhook ''1700000000'' ''{}''))
       = Some (NextResponse_json (JObj [(''received'', JBool True)]) 200)
   \<and> downstream (trace_of (webhook_POST sample_env (signed_webhook ''1700000000'' ''{}''))) = []"
  using webhook_unhandled_event [of sample_env "''whsec_test''"
      "signed_webhook ''1700000000'' ''{}''" "JObj []"]
  by (simp add: sample_env_def signed_webhook_headers truthy_str_def str_of_def
      Buffer_from_hex_encode hex_hmac_not_empty sample_JSON_parse_def)

text \<open>
  C10 as stated fails: the body \<open>null\<close> parses as JSON and has no handled event type, but
  reading \<open>event.type\<close> throws, and the delivery is answered 500.
\<close>

theorem webhook_null_body_counterexample:
  "webhookSecret sample_env = Some ''whsec_test''
   \<and> Buffer_from_hex
        (str_of (req_headers (signed_webhook ''1700000000'' ''null'') ''X-Webhook-Signature''))
       = hmac_sha256 (bytes_of_string ''whsec_test'')
           (bytes_of_string (''1700000000'' @ ''.'' @ ''null''))
   \<and> JSON_parse sample_env (req_text (signed_webhook ''1700000000'' ''null'')) = Inr JNull
   \<and> status_of (webhook_POST sample_env (signed_webhook ''1700000000'' ''null'')) = Some 500"
  by (simp add: sample_env_def signed_webhook_headers truthy_str_def str_of_def
      Buffer_from_hex_encode hex_hmac_not_empty sample_JSON_parse_def status_of_def
      response_of_def webhook_POST_def webhook_try_def Let_def fst_try_catch fst_io_bind
      createHmac_sha256_hex_def signature_invalid_eq webhook_process_def catch_all_def
      failure_response_def NextResponse_json_def)

section \<open>Validation failures\<close>

lemma status_invalid_response [simp]: "status (invalid_response label issues) = 400"
  by (simp add: invalid_response_def NextResponse_json_def)

lemma payload_invalid_response:
  "payload (invalid_response label issues)
     = Json (JObj [(''error'', JStr label), (''details'', JArr (map issue_json issues))])"
  by (simp add: invalid_response_def NextResponse_json_def)

lemma schema_parse_Inl:
  "schema v = Inl issues \<Longrightarrow> schema_parse env schema v = Inl (ZodError issues (zod_message env issues))"
  by (simp add: schema_parse_def)

lemma schema_parse_Inr:
  "schema v = Inr validated \<Longrightarrow> schema_parse env schema v = Inr validated"
  by (simp add: schema_parse_def)

text \<open>A handler whose \<open>try\<close> block ends at the schema: logged, answered 400, nothing called.\<close>

lemma zod_rejected:
  assumes "m = (Inl (ZodError issues msg), [])"
  shows "try_catch m (catch_zod logged invalid failed)
           = (Inr (invalid_response invalid issues), [Log LError logged])"
  using assms by (simp add: try_catch_def catch_zod_def io_bind_def log_def ret_def)

lemma parse_then_reject:
  assumes "JSON_parse env (req_text req) = Inr parsed" and "schema parsed = Inl issues"
  shows "io_bind (lift (req_json env req)) (\<lambda>parsed.
           io_bind (lift (schema_parse env schema parsed)) f)
         = (Inl (ZodError issues (zod_message env issues)), [])"
  using assms by (simp add: io_bind_def lift_def req_json_def schema_parse_def)

lemma invoice_create_rejected:
  assumes "JSON_parse env (req_text req) = Inr parsed"
    and "createInvoiceSchema env parsed = Inl issues"
  shows "invoice_create_POST env req
           = (Inr (invalid_response ''Invalid request data'' issues),
              [Log LError ''Error creating invoice:''])"
  unfolding invoice_create_POST_def invoice_create_try_def
  by (rule zod_rejected [OF parse_then_reject [where schema = "createInvoiceSchema env", OF assms]])

lemma quotation_create_rejected:
  assumes "JSON_parse env (req_text req) = Inr parsed"
    and "createQuotationSchema env parsed = Inl issues"
  shows "quotation_create_POST env req
           = (Inr (invalid_response ''Invalid request data'' issues),
              [Log LError ''Error creating quotation:''])"
  unfolding quotation_create_POST_def quotation_create_try_def
  by (rule zod_rejected [OF parse_then_reject [where schema = "createQuotationSchema env", OF assms]])

lemma datasheet_rejected:
  assumes "JSON_parse env (req_text req) = Inr parsed"
    and "datasheetSchema env parsed = Inl issues"
  shows "datasheet_POST env req
           = (Inr (invalid_response ''Invalid request data'' issues),
              [Log LError ''Error generating datasheet:''])"
  unfolding datasheet_POST_def datasheet_try_def
  by (rule zod_rejected [OF parse_then_reject [where schema = "datasheetSchema env", OF assms]])

lemma photo_addendum_rejected:
  assumes "JSON_parse env (req_text req) = Inr parsed"
    and "photoAddendumSchema env parsed = Inl issues"
  shows "photo_addendum_POST env req
           = (Inr (invalid_response ''Invalid request data'' issues),
              [Log LError ''Error sending photo addendum email:''])"
  unfolding photo_addendum_POST_def photo_addendum_try_def
  by (rule zod_rejected [OF parse_then_reject [where schema = "photoAddendumSchema env", OF assms]])

lemma quotation_email_rejected:
  assumes "JSON_parse env (req_text req) = Inr parsed"
    and "emailQuotationSchema env parsed = Inl issues"
  shows "quotation_email_POST env req
           = (Inr (invalid_response ''Invalid request data'' issues),
              [Log LError ''Error sending quotation email:''])"
  unfolding quotation_email_POST_def quotation_email_try_def
  by (rule zod_rejected [OF parse_then_reject [where schema = "emailQuotationSchema env", OF assms]])

lemma photos_rejected:
  assumes "querySchema env (queryParams req) = Inl issues"
  shows "photos_GET env req = (Inr (invalid_response ''Invalid query parameters'' issues), [])"
  using assms
  by (simp add: photos_GET_def photos_try_def querySchema_parse_def try_catch_def io_bind_def
      lift_def photos_catch_def ret_def)

text \<open>
  C3. For each of the six handlers that validate with a schema (invoice creation, quotation
  creation, datasheet, photo addendum, quotation email, photos), a request that the schema
  rejects is answered 400 with a JSON body that carries the issues, and no downstream
  collaborator is called.
\<close>

theorem validation_failure_400:
  fixes env :: "('n::{zero,times}) env"
  shows
    "(JSON_parse env (req_text req) = Inr parsed \<and> createInvoiceSchema env parsed = Inl issues
        \<longrightarrow> response_of (invoice_create_POST env req)
              = Some (invalid_response ''Invalid request data'' issues)
            \<and> downstream (trace_of (invoice_create_POST env req)) = [])
     \<and> (JSON_parse env (req_text req) = Inr parsed \<and> createQuotationSchema env parsed = Inl issues
        \<longrightarrow> response_of (quotation_create_POST env req)
              = Some (invalid_response ''Invalid request data'' issues)
            \<and> downstream (trace_of (quotation_create_POST env req)) = [])
     \<and> (JSON_parse env (req_text req) = Inr parsed \<and> datasheetSchema env parsed = Inl issues
        \<longrightarrow> response_of (datasheet_POST env req)
              = Some (invalid_response ''Invalid request data'' issues)
            \<and> downstream (trace_of (datasheet_POST env req)) = [])
     \<and> (JSON_parse env (req_text req) = Inr parsed \<and> photoAddendumSchema env parsed = Inl issues
        \<longrightarrow> response_of (photo_addendum_POST env req)
              = Some (invalid_response ''Invalid request data'' issues)
            \<and> downstream (trace_of (photo_addendum_POST env req)) = [])
     \<and> (JSON_parse env (req_text req) = Inr parsed \<and> emailQuotationSchema env parsed = Inl issues
        \<longrightarrow> response_of (quotation_email_POST env req)
              = Some (invalid_response ''Invalid request data'' issues)
            \<and> downstream (trace_of (quotation_email_POST env req)) = [])
     \<and> (querySchema env (queryParams req) = Inl issues
        \<longrightarrow> response_of (photos_GET env req)
              = Some (invalid_response ''Invalid query parameters'' issues)
            \<and> downstream (trace_of (photos_GET env req)) = [])
     \<and> status (invalid_response label issues :: 'n response) = 400
     \<and> payload (invalid_response label issues :: 'n response)
         = Json (JObj [(''error'', JStr label), (''details'', JArr (map issue_json issues))])"
  by (simp add: invoice_create_rejected quotation_create_rejected datasheet_rejected
      photo_addendum_rejected quotation_email_rejected photos_rejected response_of_def
      trace_of_def payload_invalid_response)

theorem validation_failure_400_witness:
  "JSON_parse sample_env (req_text (post ''null'')) = Inr JNull
   \<and> createInvoiceSchema sample_env JNull = Inl [Issue ''invalid_type'' []]
   \<and> response_of (invoice_create_POST sample_env (post ''null''))
       = Some (invalid_response ''Invalid request data'' [Issue ''invalid_type'' []])
   \<and> downstream (trace_of (invoice_create_POST sample_env (post ''null''))) = []
   \<and> querySchema sample_env (queryParams (get ''ds-acsc-400'' [(''type'', ''poster'')]))
       = Inl [Issue ''invalid_enum_value'' [''type''],
              Issue ''invalid_type'' [''actualModelOnly''],
              Issue ''invalid_type'' [''expiresIn'']]
   \<and> status_of (photos_GET sample_env (get ''ds-acsc-400'' [(''type'', ''poster'')])) = Some 400"
  using validation_failure_400 [of sample_env "post ''null''" JNull "[Issue ''invalid_type'' []]"]
    validation_failure_400 [of sample_env "get ''ds-acsc-400'' [(''type'', ''poster'')]" JNull
      "[Issue ''invalid_enum_value'' [''type''], Issue ''invalid_type'' [''actualModelOnly''],
        Issue ''invalid_type'' [''expiresIn'']]"]
  by (simp add: sample_env_def post_def get_def sample_JSON_parse_def sample_schema_def
      querySchema_def querySchema_issues_def queryParams_def or_string_def photo_types_def
      status_of_def)

section \<open>Lookups that find nothing\<close>

subsection \<open>The photo addendum's loops\<close>

lemma fetchImage_result:
  "fst (fetchImageAsDataUrl env k)
     = Inr (case getFile env k of
              Inl e \<Rightarrow> None
            | Inr None \<Rightarrow> None
            | Inr (Some file) \<Rightarrow>
                (case file_Body file of
                   None \<Rightarrow> None
                 | Some bytes \<Rightarrow>
                     Some (''data:'' @ or_string (file_ContentType file) ''image/jpeg''
                           @ '';base64,'' @ base64 bytes)))"
  by (simp add: fetchImageAsDataUrl_def fst_try_catch fst_io_bind
      split: sum.splits option.splits)

lemma usable_fetched:
  "fst (fetchImageAsDataUrl env k) = Inr url \<Longrightarrow> usable_url url \<noteq> None \<longleftrightarrow> fetchable env k"
  by (auto simp: fetchImage_result fetchable_def usable_url_def truthy_str_def
      split: sum.splits option.splits)

lemma fetch_photos_result:
  "\<exists>fetched. fst (fetch_photos env photos) = Inr fetched
     \<and> map fst fetched = filter (\<lambda>photo. fetchable env (photo_s3Key photo)) photos"
proof (induction photos)
  case Nil
  then show ?case by simp
next
  case (Cons photo photos)
  obtain url where url: "fst (fetchImageAsDataUrl env (photo_s3Key photo)) = Inr url"
    by (simp add: fetchImage_result)
  from Cons obtain rest where rest: "fst (fetch_photos env photos) = Inr rest"
    "map fst rest = filter (\<lambda>photo. fetchable env (photo_s3Key photo)) photos"
    by blast
  show ?case
    using url rest usable_fetched [OF url]
    by (cases "usable_url url") (auto simp: fst_io_bind)
qed

lemma collect_products_result:
  "\<exists>products. fst (collect_products env includePhotos productIds) = Inr products
     \<and> map ap_productId products
         = map (\<lambda>productId. case getPhotosByProductId env productId of
                  None \<Rightarrow> productId | Some photoSet \<Rightarrow> ps_productId photoSet)
             (filter (yields_photo env includePhotos) productIds)"
proof (induction productIds)
  case Nil
  then show ?case by simp
next
  case (Cons productId productIds)
  from Cons obtain rest where rest:
    "fst (collect_products env includePhotos productIds) = Inr rest"
    "map ap_productId rest
       = map (\<lambda>productId. case getPhotosByProductId env productId of
                None \<Rightarrow> productId | Some photoSet \<Rightarrow> ps_productId photoSet)
           (filter (yields_photo env includePhotos) productIds)"
    by blast
  show ?case
  proof (cases "getPhotosByProductId env productId")
    case None
    then have "\<not> yields_photo env includePhotos productId"
      by (simp add: yields_photo_def)
    with None rest show ?thesis
      by (simp add: fst_io_bind)
  next
    case (Some photoSet)
    obtain fetched where fetched:
      "fst (fetch_photos env (filter (photo_included includePhotos) (ps_photos photoSet)))
         = Inr fetched"
      "map fst fetched
         = filter (\<lambda>photo. fetchable env (photo_s3Key photo))
             (filter (photo_included includePhotos) (ps_photos photoSet))"
      using fetch_photos_result by blast
    have "yields_photo env includePhotos productId \<longleftrightarrow> fetched \<noteq> []"
    proof -
      have "fetched \<noteq> [] \<longleftrightarrow> map fst fetched \<noteq> []" by simp
      also have "\<dots> \<longleftrightarrow> yields_photo env includePhotos productId"
        unfolding fetched(2)
        by (auto simp: yields_photo_def Some list_ex_iff filter_empty_conv)
      finally show ?thesis by simp
    qed
    with Some rest fetched(1) show ?thesis
      by (simp add: fst_io_bind)
  qed
qed

lemma collect_products_empty:
  "fst (collect_products env includePhotos productIds) = Inr []
     \<longleftrightarrow> (\<forall>productId \<in> set productIds. \<not> yields_photo env includePhotos productId)"
proof -
  obtain products where products:
    "fst (collect_products env includePhotos productIds) = Inr products"
    "map ap_productId products
       = map (\<lambda>productId. case getPhotosByProductId env productId of
                None \<Rightarrow> productId | Some photoSet \<Rightarrow> ps_productId photoSet)
           (filter (yields_photo env includePhotos) productIds)"
    using collect_products_result by blast
  have "products = [] \<longleftrightarrow> map ap_productId products = []" by simp
  also have "\<dots> \<longleftrightarrow> (\<forall>productId \<in> set productIds. \<not> yields_photo env includePhotos productId)"
    unfolding products(2) by (simp add: filter_empty_conv)
  finally show ?thesis by (simp add: products(1))
qed

text \<open>The loop goes on after a product that has no photo set.\<close>

lemma collect_products_skip:
  "getPhotosByProductId env productId = None \<Longrightarrow>
   collect_products env includePhotos (productId # productIds)
     = (fst (collect_products env includePhotos productIds),
        Log LWarn (''Product not found: '' @ productId)
        # snd (collect_products env includePhotos productIds))"
  by (cases "collect_products env includePhotos productIds")
    (auto simp: io_bind_def log_def ret_def split: sum.splits)


subsection \<open>The handlers' answers\<close>

lemma products_get_not_found:
  assumes "truthy_str (req_query req ''id'')"
    and "getProductWithVariant env (str_of (req_query req ''id'')) (req_query req ''variantId'')
           = None"
  shows "status_of (products_get_GET env req) = Some 404"
  using assms
  by (simp add: products_get_GET_def products_get_try_def Let_def status_of_def response_of_def
      fst_try_catch NextResponse_json_def)

lemma quotation_get_not_found:
  assumes "truthy_str (req_query req ''id'')"
    and "db_getQuotation env (str_of (req_query req ''id'')) = Inr result"
    and "quotation_missing result"
  shows "status_of (quotation_get_GET env req) = Some 404"
  using assms
  by (simp add: quotation_get_GET_def quotation_get_try_def Let_def status_of_def
      response_of_def fst_try_catch fst_io_bind)

lemma photos_not_found:
  assumes "querySchema env (queryParams req) = Inr validated"
    and "getPhotosByProductId env (req_productId req) = None"
  shows "status_of (photos_GET env req) = Some 404"
  using assms
  by (simp add: photos_GET_def photos_try_def Let_def querySchema_parse_def status_of_def
      response_of_def fst_try_catch fst_io_bind NextResponse_json_def)

lemma datasheet_not_found:
  assumes "JSON_parse env (req_text req) = Inr parsed"
    and "datasheetSchema env parsed = Inr validated"
    and "(if truthy_str (dr_variantId validated)
          then getProductWithVariant env (dr_productId validated) (dr_variantId validated)
          else getProductById env (dr_productId validated)) = None"
  shows "status_of (datasheet_POST env req) = Some 404"
  using assms
  by (simp add: datasheet_POST_def datasheet_try_def Let_def req_json_def schema_parse_def
      status_of_def response_of_def fst_try_catch fst_io_bind NextResponse_json_def
      split: if_splits)

lemma quotation_email_not_found:
  assumes "JSON_parse env (req_text req) = Inr parsed"
    and "emailQuotationSchema env parsed = Inr validated"
    and "truthy_str (eqr_quotationId validated)" and "\<not> truthy (eqr_quotation validated)"
    and "db_getQuotation env (str_of (eqr_quotationId validated)) = Inr result"
    and "quotation_missing result"
  shows "status_of (quotation_email_POST env req) = Some 404"
  using assms
  by (simp add: quotation_email_POST_def quotation_email_try_def resolve_quotation_def
      req_json_def schema_parse_def status_of_def response_of_def fst_try_catch fst_io_bind)

lemma photo_addendum_quotation_not_found:
  assumes "JSON_parse env (req_text req) = Inr parsed"
    and "photoAddendumSchema env parsed = Inr validated"
    and "truthy_str (par_quotationId validated)" and "\<not> truthy (par_customer validated)"
    and "db_getQuotation env (str_of (par_quotationId validated)) = Inr result"
    and "quotation_missing result"
  shows "status_of (photo_addendum_POST env req) = Some 404"
  using assms
  by (simp add: photo_addendum_POST_def photo_addendum_try_def resolve_customer_def
      req_json_def schema_parse_def status_of_def response_of_def fst_try_catch fst_io_bind)

text \<open>Once the photos are collected, the photo addendum is sent or fails: no 404 is left.\<close>

lemma send_addendum_status:
  "fst (send_addendum env validated customer reference products) = Inr r \<Longrightarrow> status r = 200"
  by (auto simp: send_addendum_def Let_def fst_io_bind NextResponse_json_def
      split: sum.splits)

lemma photo_addendum_collected:
  assumes "JSON_parse env (req_text req) = Inr parsed"
    and "photoAddendumSchema env parsed = Inr validated"
    and "fst (resolve_customer env validated) = Inr (Inr (customer, reference))"
    and "truthy (opt_prop ''email'' customer)"
  shows "status_of (photo_addendum_POST env req) = Some 404
           \<longleftrightarrow> (\<forall>productId \<in> set (par_productIds validated).
                  \<not> yields_photo env (par_includePhotos validated) productId)"
proof -
  obtain products where products:
    "fst (collect_products env (par_includePhotos validated) (par_productIds validated))
       = Inr products"
    using collect_products_result by blast
  have empty: "products = [] \<longleftrightarrow> (\<forall>productId \<in> set (par_productIds validated).
      \<not> yields_photo env (par_includePhotos validated) productId)"
    using collect_products_empty [of env "par_includePhotos validated" "par_productIds validated"]
      products by simp
  have ran: "fst (photo_addendum_try env req)
      = (if products = [] then Inr (not_found ''No photos found for the specified products'')
         else fst (send_addendum env validated customer reference products))"
    using assms products
    by (simp add: photo_addendum_try_def req_json_def schema_parse_def fst_io_bind)
  show ?thesis
  proof (cases "products = []")
    case True
    with ran empty show ?thesis
      by (simp add: photo_addendum_POST_def status_of_catch_zod)
  next
    case False
    with ran empty send_addendum_status [of env validated customer reference products]
    show ?thesis
      by (auto simp: photo_addendum_POST_def status_of_catch_zod split: sum.splits exn.splits)
  qed
qed

lemma resolve_customer_given:
  "truthy (par_customer validated) \<Longrightarrow>
   fst (resolve_customer env validated)
     = Inr (Inr (par_customer validated, map_option JStr (par_quotationNumber validated)))"
  by (simp add: resolve_customer_def)

lemma resolve_customer_stored:
  assumes "truthy_str (par_quotationId validated)" and "\<not> truthy (par_customer validated)"
    and "db_getQuotation env (str_of (par_quotationId validated)) = Inr result"
    and "\<not> quotation_missing result"
    and "customer_of (db_quotation result) = Inr customer"
  shows "fst (resolve_customer env validated)
           = Inr (Inr (customer, opt_prop ''quotationNumber'' (db_quotation result)))"
  using assms by (simp add: resolve_customer_def fst_io_bind)

text \<open>
  The datasheet of a product without photo set: no image is fetched, the first call is
  the rendering of the datasheet without images, and the answer is not 404.
\<close>

lemma render_each_trace:
  "langs \<noteq> [] \<Longrightarrow>
   \<exists>rest. snd (render_each env doc langs) = RenderToBuffer (doc (hd langs)) # rest"
  by (cases langs) (auto simp: snd_io_bind split: sum.splits)

lemma send_datasheet_status:
  "fst (send_datasheet env validated product datasheetData documentHash langs pdfBuffers) = Inr r
   \<Longrightarrow> status r \<noteq> 404"
  by (auto simp: send_datasheet_def Let_def fst_io_bind NextResponse_json_def
      split: option.splits if_splits sum.splits)

lemma pdf_response_status: "pdf_response env buffer filename = Inr r \<Longrightarrow> status r = 200"
  by (auto simp: pdf_response_def split: if_splits)

lemma datasheet_without_photo_set:
  fixes env :: "'n env"
  assumes "JSON_parse env (req_text req) = Inr parsed"
    and "datasheetSchema env parsed = Inr validated"
    and "(if truthy_str (dr_variantId validated)
          then getProductWithVariant env (dr_productId validated) (dr_variantId validated)
          else getProductById env (dr_productId validated)) = Some product"
    and "getPhotosByProductId env
           (replace_first ''-r290'' [] (replace_first ''-r407c'' [] (dr_productId validated)))
           = None"
  shows "(\<exists>rest. trace_of (datasheet_POST env req)
            = RenderToBuffer
                (DatasheetPDF (buildDatasheetData env product None None)
                   (dr_documentStatus validated)
                   (generateDocumentHash env
                      (''Datasheet-'' @ ds_sku (buildDatasheetData env product None None)
                       @ ''-'' @ today env))
                   (first_language validated)) # rest)
         \<and> status_of (datasheet_POST env req) \<noteq> Some 404"
proof -
  define datasheetData where "datasheetData = buildDatasheetData env product None None"
  define documentHash where "documentHash = generateDocumentHash env
      (''Datasheet-'' @ ds_sku datasheetData @ ''-'' @ today env)"
  define langs where "langs = (case dr_languages validated of
      None \<Rightarrow> [dr_language validated]
    | Some ls \<Rightarrow> if length ls > 0 then ls else [dr_language validated])"
  define doc :: "string \<Rightarrow> 'n pdf_document"
    where "doc = DatasheetPDF datasheetData (dr_documentStatus validated) documentHash"
  have langs: "langs \<noteq> []" "hd langs = first_language validated"
    by (auto simp: langs_def first_language_def split: option.splits list.splits)
  have ran: "datasheet_try env req
      = io_bind (render_each env doc langs) (\<lambda>pdfBuffers.
          if dr_returnPdf validated
          then (case pdfBuffers of
                  [] \<Rightarrow> throw (TypeError_read ''undefined'' ''buffer'')
                | first # others \<Rightarrow>
                    lift (pdf_response env (snd first)
                            (''datasheet-'' @ ds_sku datasheetData @ ''.pdf'')))
          else send_datasheet env validated product datasheetData documentHash langs
                 pdfBuffers)"
    using assms
    unfolding doc_def documentHash_def datasheetData_def langs_def
    by (simp add: datasheet_try_def req_json_def schema_parse_def fetch_photo_at_def Let_def
        bind_ret bind_lift_Inr del: One_nat_def cong: if_cong)
  obtain rest where rest: "snd (render_each env doc langs) = RenderToBuffer (doc (hd langs)) # rest"
    using render_each_trace [OF langs(1)] by blast
  have first: "\<exists>rest. trace_of (datasheet_POST env req)
      = RenderToBuffer (doc (first_language validated)) # rest"
    using rest langs(2)
    by (auto simp: datasheet_POST_def trace_of_def snd_try_catch ran snd_io_bind
        split: sum.splits)
  have "status_of (datasheet_POST env req) \<noteq> Some 404"
    using send_datasheet_status [of env validated product datasheetData documentHash langs]
      pdf_response_status [of env]
    by (auto simp: datasheet_POST_def status_of_catch_zod ran fst_io_bind
        split: sum.splits exn.splits list.splits if_splits)
  with first show ?thesis
    by (simp add: doc_def documentHash_def datasheetData_def)
qed


text \<open>
  C4, as the code has it by design. The handlers that look up the requested product
  (product details, datasheet), the stored quotation (quotation get, quotation email, photo
  addendum) or the photo set (photos) answer 404 when the lookup finds nothing. The photo
  addendum goes on after a requested product without photo set, which yields no photo, and
  answers 404 exactly when no requested product yields a photo. The datasheet of a product
  without photo set is rendered without images, and is not answered 404.
\<close>

theorem lookup_not_found_404:
  fixes env :: "('n::zero) env"
  shows
    "(truthy_str (req_query req ''id'')
      \<and> getProductWithVariant env (str_of (req_query req ''id'')) (req_query req ''variantId'')
          = None
      \<longrightarrow> status_of (products_get_GET env req) = Some 404)
     \<and> (truthy_str (req_query req ''id'')
      \<and> db_getQuotation env (str_of (req_query req ''id'')) = Inr result
      \<and> quotation_missing result
      \<longrightarrow> status_of (quotation_get_GET env req) = Some 404)
     \<and> (querySchema env (queryParams req) = Inr query
      \<and> getPhotosByProductId env (req_productId req) = None
      \<longrightarrow> status_of (photos_GET env req) = Some 404)
     \<and> (JSON_parse env (req_text req) = Inr parsed \<and> datasheetSchema env parsed = Inr datasheet
      \<and> (if truthy_str (dr_variantId datasheet)
          then getProductWithVariant env (dr_productId datasheet) (dr_variantId datasheet)
          else getProductById env (dr_productId datasheet)) = None
      \<longrightarrow> status_of (datasheet_POST env req) = Some 404)
     \<and> (JSON_parse env (req_text req) = Inr parsed \<and> emailQuotationSchema env parsed = Inr mail
      \<and> truthy_str (eqr_quotationId mail) \<and> \<not> truthy (eqr_quotation mail)
      \<and> db_getQuotation env (str_of (eqr_quotationId mail)) = Inr result
      \<and> quotation_missing result
      \<longrightarrow> status_of (quotation_email_POST env req) = Some 404)
     \<and> (JSON_parse env (req_text req) = Inr parsed \<and> photoAddendumSchema env parsed = Inr addendum
      \<and> truthy_str (par_quotationId addendum) \<and> \<not> truthy (par_customer addendum)
      \<and> db_getQuotation env (str_of (par_quotationId addendum)) = Inr result
      \<and> quotation_missing result
      \<longrightarrow> status_of (photo_addendum_POST env req) = Some 404)
     \<and> (JSON_parse env (req_text req) = Inr parsed \<and> photoAddendumSchema env parsed = Inr addendum
      \<and> truthy (par_customer addendum) \<and> truthy (opt_prop ''email'' (par_customer addendum))
      \<longrightarrow> (status_of (photo_addendum_POST env req) = Some 404
            \<longleftrightarrow> (\<forall>productId \<in> set (par_productIds addendum).
                   \<not> yields_photo env (par_includePhotos addendum) productId)))
     \<and> (JSON_parse env (req_text req) = Inr parsed \<and> photoAddendumSchema env parsed = Inr addendum
      \<and> truthy_str (par_quotationId addendum) \<and> \<not> truthy (par_customer addendum)
      \<and> db_getQuotation env (str_of (par_quotationId addendum)) = Inr result
      \<and> \<not> quotation_missing result
      \<and> customer_of (db_quotation result) = Inr customer
      \<and> truthy (opt_prop ''email'' customer)
      \<longrightarrow> (status_of (photo_addendum_POST env req) = Some 404
            \<longleftrightarrow> (\<forall>productId \<in> set (par_productIds addendum).
                   \<not> yields_photo env (par_includePhotos addendum) productId)))
     \<and> (getPhotosByProductId env productId = None
      \<longrightarrow> \<not> yields_photo env includePhotos productId
          \<and> collect_products env includePhotos (productId # productIds)
              = (fst (collect_products env includePhotos productIds),
                 Log LWarn (''Product not found: '' @ productId)
                 # snd (collect_products env includePhotos productIds)))
     \<and> (JSON_parse env (req_text req) = Inr parsed \<and> datasheetSchema env parsed = Inr datasheet
      \<and> (if truthy_str (dr_variantId datasheet)
          then getProductWithVariant env (dr_productId datasheet) (dr_variantId datasheet)
          else getProductById env (dr_productId datasheet)) = Some product
      \<and> getPhotosByProductId env
            (replace_first ''-r290'' [] (replace_first ''-r407c'' [] (dr_productId datasheet)))
          = None
      \<longrightarrow> (\<exists>rest. trace_of (datasheet_POST env req)
             = RenderToBuffer
                 (DatasheetPDF (buildDatasheetData env product None None)
                    (dr_documentStatus datasheet)
                    (generateDocumentHash env
                       (''Datasheet-'' @ ds_sku (buildDatasheetData env product None None)
                        @ ''-'' @ today env))
                    (first_language datasheet)) # rest)
          \<and> status_of (datasheet_POST env req) \<noteq> Some 404)"
  apply (intro conjI impI)
  subgoal by (simp add: products_get_not_found)
  subgoal using quotation_get_not_found [of req env result] by simp
  subgoal using photos_not_found [of env req query] by simp
  subgoal using datasheet_not_found [of env req parsed datasheet] by blast
  subgoal using quotation_email_not_found [of env req parsed mail result] by blast
  subgoal using photo_addendum_quotation_not_found [of env req parsed addendum result] by blast
  subgoal using photo_addendum_collected [of env req parsed addendum "par_customer addendum"
        "map_option JStr (par_quotationNumber addendum)"]
    by (simp add: resolve_customer_given)
  subgoal using photo_addendum_collected [of env req parsed addendum customer
        "opt_prop ''quotationNumber'' (db_quotation result)"]
      resolve_customer_stored [of addendum env result customer]
    by simp
  subgoal by (simp add: yields_photo_def)
  subgoal by (rule collect_products_skip)
  subgoal using datasheet_without_photo_set [of env req parsed datasheet product] by blast
  subgoal using datasheet_without_photo_set [of env req parsed datasheet product] by blast
  done


lemma sample_yields:
  "yields_photo sample_env None ''ds-acsc-400''" "\<not> yields_photo sample_env None ''unknown''"
  by (simp_all add: yields_photo_def fetchable_def sample_env_def sample_lookup_def
      sample_photo_set_def photo_included_def)

theorem lookup_not_found_404_witness:
  "truthy_str (req_query (get [] [(''id'', ''unknown'')]) ''id'')
   \<and> getProductWithVariant sample_env ''unknown'' None = None
   \<and> status_of (products_get_GET sample_env (get [] [(''id'', ''unknown'')])) = Some 404
   \<and> db_getQuotation sample_env ''q-404'' = Inr \<lparr>db_success = False, db_quotation = None\<rparr>
   \<and> status_of (quotation_get_GET sample_env (get [] [(''id'', ''q-404'')])) = Some 404
   \<and> par_productIds sample_addendum_request = [''ds-acsc-400'', ''unknown'']
   \<and> yields_photo sample_env None ''ds-acsc-400''
   \<and> status_of (photo_addendum_POST sample_env (post ''{}'')) \<noteq> Some 404
   \<and> getPhotosByProductId sample_env ''unknown'' = None
   \<and> collect_products sample_env None [''unknown'', ''ds-acsc-400'']
       = (fst (collect_products sample_env None [''ds-acsc-400'']),
          Log LWarn ''Product not found: unknown''
          # snd (collect_products sample_env None [''ds-acsc-400'']))
   \<and> getProductById no_photos_env ''ds-acsc-400'' = Some sample_product
   \<and> getPhotosByProductId no_photos_env ''ds-acsc-400'' = None
   \<and> (\<exists>rest. trace_of (datasheet_POST no_photos_env (post ''{}''))
          = RenderToBuffer
              (DatasheetPDF
                 \<lparr>ds_productId = ''ds-acsc-400'', ds_sku = ''DS-ACSC-400'',
                  ds_productName = ''ACSC-400'', ds_productImage = None,
                  ds_sideViewImage = None\<rparr> ''WIP'' ''hash'' ''en'') # rest)
   \<and> status_of (datasheet_POST no_photos_env (post ''{}'')) \<noteq> Some 404"
proof -
  have gets: "status_of (products_get_GET sample_env (get [] [(''id'', ''unknown'')])) = Some 404"
    "status_of (quotation_get_GET sample_env (get [] [(''id'', ''q-404'')])) = Some 404"
    using lookup_not_found_404 [of "get [] [(''id'', ''unknown'')]" sample_env]
      lookup_not_found_404 [of "get [] [(''id'', ''q-404'')]" sample_env
        "\<lparr>db_success = False, db_quotation = None\<rparr>"]
    by (simp_all add: get_def truthy_str_def str_of_def sample_env_def sample_lookup_def
        quotation_missing_def)
  have addendum: "JSON_parse sample_env (req_text (post ''{}'')) = Inr (JObj [])"
    "photoAddendumSchema sample_env (JObj []) = Inr sample_addendum_request"
    "truthy (par_customer sample_addendum_request)"
    "truthy (opt_prop ''email'' (par_customer sample_addendum_request))"
    "par_includePhotos sample_addendum_request = None"
    "par_productIds sample_addendum_request = [''ds-acsc-400'', ''unknown'']"
    by (simp_all add: sample_env_def post_def sample_JSON_parse_def sample_schema_def
        sample_addendum_request_def customer_json_def)
  have sent: "status_of (photo_addendum_POST sample_env (post ''{}'')) \<noteq> Some 404"
    using lookup_not_found_404 [of "post ''{}''" sample_env _ _ "JObj []" _ _
        sample_addendum_request] addendum sample_yields
    by simp
  have unknown: "getPhotosByProductId sample_env ''unknown'' = None"
    by (simp add: sample_env_def sample_lookup_def)
  have skipped: "collect_products sample_env None [''unknown'', ''ds-acsc-400'']
       = (fst (collect_products sample_env None [''ds-acsc-400'']),
          Log LWarn ''Product not found: unknown''
          # snd (collect_products sample_env None [''ds-acsc-400'']))"
    using lookup_not_found_404 [of _ sample_env _ _ _ _ _ _ _ "''unknown''" None
        "[''ds-acsc-400'']"] unknown
    by simp
  have datasheet: "JSON_parse no_photos_env (req_text (post ''{}'')) = Inr (JObj [])"
    "datasheetSchema no_photos_env (JObj []) = Inr sample_datasheet_request"
    "getProductById no_photos_env ''ds-acsc-400'' = Some sample_product"
    "getPhotosByProductId no_photos_env ''ds-acsc-400'' = None"
    "generateDocumentHash no_photos_env = (\<lambda>s. ''hash'')"
    by (simp_all add: no_photos_env_def sample_env_def post_def sample_JSON_parse_def
        sample_schema_def sample_lookup_def)
  have data: "buildDatasheetData no_photos_env sample_product None None
      = \<lparr>ds_productId = ''ds-acsc-400'', ds_sku = ''DS-ACSC-400'',
         ds_productName = ''ACSC-400'', ds_productImage = None, ds_sideViewImage = None\<rparr>"
    by (simp add: buildDatasheetData_def sample_product_def or_string_def)
  have rendered: "(\<exists>rest. trace_of (datasheet_POST no_photos_env (post ''{}''))
          = RenderToBuffer
              (DatasheetPDF
                 \<lparr>ds_productId = ''ds-acsc-400'', ds_sku = ''DS-ACSC-400'',
                  ds_productName = ''ACSC-400'', ds_productImage = None,
                  ds_sideViewImage = None\<rparr> ''WIP'' ''hash'' ''en'') # rest)
      \<and> status_of (datasheet_POST no_photos_env (post ''{}'')) \<noteq> Some 404"
    using lookup_not_found_404 [of "post ''{}''" no_photos_env _ _ "JObj []"
        sample_datasheet_request _ _ _ _ _ _ sample_product] datasheet
    by (simp add: data sample_datasheet_request_def truthy_str_def first_language_def)
  show ?thesis
    using gets sent skipped rendered addendum(6) sample_yields(1) unknown datasheet(3,4)
    by (simp add: get_def truthy_str_def sample_env_def sample_lookup_def)
qed

lemma fetchImage_found:
  assumes "getFile env k = Inr (Some f)" and "file_Body f = Some bytes"
  shows "fst (fetchImageAsDataUrl env k)
           = Inr (Some (''data:'' @ or_string (file_ContentType f) ''image/jpeg''
                        @ '';base64,'' @ base64 bytes))"
  using assms by (simp add: fetchImage_result)

lemma sample_fetch:
  "fst (fetchImageAsDataUrl sample_env k) = Inr (Some (''data:image/jpeg;base64,'' @ base64 [0xFF, 0xD8]))"
  using fetchImage_found [of sample_env k "\<lparr>file_Body = Some [0xFF, 0xD8], file_ContentType = None\<rparr>"
      "[0xFF, 0xD8]"]
  by (simp add: sample_env_def or_string_def)

lemma sample_collect:
  "\<exists>p. fst (collect_products sample_env None [''ds-acsc-400'', ''unknown'']) = Inr [p]"
proof -
  have "getPhotosByProductId sample_env ''ds-acsc-400'' = Some sample_photo_set"
    "getPhotosByProductId sample_env ''unknown'' = None"
    by (simp_all add: sample_env_def sample_lookup_def)
  then show ?thesis
    by (simp add: fst_io_bind sample_photo_set_def photo_included_def sample_fetch
        usable_url_def truthy_str_def)
qed

lemma addendum_skips_unknown:
  "status_of (photo_addendum_POST sample_env (post ''{}'')) = Some 200"
proof -
  obtain p where p: "fst (collect_products sample_env None [''ds-acsc-400'', ''unknown'']) = Inr [p]"
    using sample_collect by blast
  have env: "JSON_parse sample_env = sample_JSON_parse"
    "photoAddendumSchema sample_env = sample_schema sample_addendum_request"
    "renderToBuffer sample_env = (\<lambda>doc. Inr [0x25, 0x50, 0x44, 0x46])"
    "send_email sample_env = (\<lambda>mail. Inr ())"
    by (simp_all add: sample_env_def)
  show ?thesis
    using p
    by (simp add: env status_of_def response_of_def photo_addendum_POST_def
        photo_addendum_try_def post_def req_json_def sample_JSON_parse_def sample_schema_def
        schema_parse_def sample_addendum_request_def resolve_customer_def truthy_str_def
        customer_json_def send_addendum_def salutation_of_def fst_try_catch fst_io_bind Let_def
        NextResponse_json_def)
qed

lemma create_unknown_500:
  "status_of (quotation_create_POST unknown_product_env (post ''{}'')) = Some 500"
  by code_simp

text \<open>
  C4 as stated fails. The photo addendum for a product with photos and an unknown product
  is sent, with status 200, although the photo set lookup of the unknown product finds
  nothing; and quotation creation for a product that the catalog does not have throws an
  \<open>Error\<close>, which its catch block answers with 500, not 404.
\<close>

theorem lookup_not_404_counterexample:
  "par_productIds sample_addendum_request = [''ds-acsc-400'', ''unknown'']
   \<and> getPhotosByProductId sample_env ''unknown'' = None
   \<and> status_of (photo_addendum_POST sample_env (post ''{}'')) = Some 200
   \<and> getProductById unknown_product_env ''unknown'' = None
   \<and> status_of (quotation_create_POST unknown_product_env (post ''{}'')) = Some 500"
proof -
  have "par_productIds sample_addendum_request = [''ds-acsc-400'', ''unknown'']"
    by (simp add: sample_addendum_request_def)
  moreover have "getPhotosByProductId sample_env ''unknown'' = None"
    by (simp add: sample_env_def sample_lookup_def)
  moreover have "getProductById unknown_product_env ''unknown'' = None"
    by (simp add: unknown_product_env_def sample_env_def sample_lookup_def)
  ultimately show ?thesis
    using addendum_skips_unknown create_unknown_500 by blast
qed

section \<open>Exceptions that reach the catch block\<close>

lemma escaping_append [simp]: "escaping env (t @ u) = escaping env t @ escaping env u"
  by (induction t) (simp_all split: option.splits)

lemma escaping_Log [simp]: "escaping env (Log l m # t) = escaping env t"
  by simp


lemma propagating_throw [simp]: "propagating env (throw e)"
  by (simp add: propagating_def)






text \<open>\<open>fetchImageAsDataUrl\<close> calls \<open>getFile\<close> and nothing else.\<close>

lemma escaping_fetchImage [simp]: "escaping env (snd (fetchImageAsDataUrl env k)) = []"
  by (auto simp: fetchImageAsDataUrl_def snd_try_catch snd_io_bind
      split: sum.splits option.splits)

lemma propagating_fetchImage [simp]: "propagating env (fetchImageAsDataUrl env k)"
  by (simp add: propagating_def)



subsection \<open>The try blocks let exceptions through\<close>






















subsection \<open>The signing of the photos\<close>




subsection \<open>From the try block to the response\<close>

lemma escaping_catch_zod [simp]:
  "escaping env (snd (try_catch m (catch_zod logged invalid failed))) = escaping env (snd m)"
  by (auto simp: snd_try_catch catch_zod_def snd_io_bind split: sum.splits exn.splits)

lemma escaping_catch_all [simp]:
  "escaping env (snd (try_catch m (catch_all logged failed))) = escaping env (snd m)"
  by (auto simp: snd_try_catch catch_all_def snd_io_bind split: sum.splits)

lemma escaping_photos_catch [simp]:
  "escaping env (snd (try_catch m photos_catch)) = escaping env (snd m)"
  by (auto simp: snd_try_catch photos_catch_def snd_io_bind split: sum.splits exn.splits)




















lemma replace_first_sample:
  "replace_first ''-r290'' [] (replace_first ''-r407c'' [] ''ds-acsc-400'') = ''ds-acsc-400''"
  by simp

lemma fetch_swallowed:
  "fetchImageAsDataUrl storage_down_env s3Key
     = (Inr None, [GetFile s3Key, Log LError (''Failed to fetch image '' @ s3Key @ '':'')])"
  by (simp add: fetchImageAsDataUrl_def storage_down_env_def try_catch_def io_bind_def
      io_call_def log_def ret_def)


section \<open>PDF responses\<close>




lemma valid_header_value_append [simp]:
  "valid_header_value (a @ b) \<longleftrightarrow> valid_header_value a \<and> valid_header_value b"
  by (simp add: valid_header_value_def)












section \<open>Product photos\<close>

text \<open>
  What the handler returns for a query that the schema accepts: the photos of the set that
  pass the filters, in the order of the set, each with its signed URL and the validated
  \<open>expiresIn\<close>, and their number.
\<close>

lemma set_filter_photos: "set (filter_photos type actualModelOnly photos) \<subseteq> set photos"
  by (auto simp: filter_photos_def Let_def)

lemma filter_photos_eq:
  "filter_photos type actualModelOnly photos
     = filter (\<lambda>p. (type = ''all'' \<or> photo_type p = type)
                    \<and> (actualModelOnly \<longrightarrow> photo_isActualModel p)) photos"
  by (induction photos) (auto simp: filter_photos_def Let_def)

lemma Promise_all_signed:
  assumes "\<forall>p \<in> set photos. getPresignedUrl env (photo_s3Key p) expiresIn = Inr (url p)"
  shows "Promise_all (map (sign_photo env expiresIn) photos)
           = (Inr (map (\<lambda>p. photo_with_url p (url p) expiresIn) photos),
              map (\<lambda>p. GetPresignedUrl (photo_s3Key p) expiresIn) photos)"
  using assms
  by (induction photos) (simp_all add: sign_photo_def io_bind_def io_call_def ret_def)

lemma photos_returned:
  assumes "querySchema env (queryParams req) = Inr validated"
    and "getPhotosByProductId env (req_productId req) = Some photoSet"
    and "\<forall>p \<in> set (ps_photos photoSet).
           getPresignedUrl env (photo_s3Key p) (pq_expiresIn validated) = Inr (url p)"
  shows "response_of (photos_GET env req)
           = Some (NextResponse_json
                (photos_json env photoSet
                   (map (\<lambda>p. photo_with_url p (url p) (pq_expiresIn validated))
                      (filter_photos (pq_type validated) (pq_actualModelOnly validated)
                         (ps_photos photoSet)))) 200)"
proof -
  have "\<forall>p \<in> set (filter_photos (pq_type validated) (pq_actualModelOnly validated)
                     (ps_photos photoSet)).
          getPresignedUrl env (photo_s3Key p) (pq_expiresIn validated) = Inr (url p)"
    using assms(3) set_filter_photos by blast
  from Promise_all_signed [OF this] assms(1,2) show ?thesis
    by (simp add: photos_GET_def photos_try_def querySchema_parse_def response_of_def
        fst_try_catch fst_io_bind Let_def)
qed

lemma querySchema_accepts:
  "querySchema env q = Inr validated \<longleftrightarrow>
     raw_type q \<in> set photo_types \<and> raw_actualModelOnly q \<noteq> None \<and> raw_expiresIn q \<noteq> None
     \<and> validated = \<lparr>pq_type = raw_type q,
                      pq_actualModelOnly = (raw_actualModelOnly q = Some ''true''),
                      pq_expiresIn = (if truthy_str (raw_expiresIn q)
                                      then parseInt env (str_of (raw_expiresIn q))
                                      else number env 3600)\<rparr>"
  by (auto simp: querySchema_def querySchema_issues_def split: option.splits)

text \<open>
  C7 holds for the queries that the schema accepts (\<open>photos_returned\<close>), and the schema
  accepts a query exactly when its type is one of the four names and both
  \<open>actualModelOnly\<close> and \<open>expiresIn\<close> are given (\<open>querySchema_accepts\<close>). So the request
  that the handler documents with defaults, a product's photos with no query parameter,
  is answered 400 for a product that has a photo set.
\<close>

theorem photos_without_parameters_400:
  "getPhotosByProductId sample_env ''ds-acsc-400'' = Some sample_photo_set
   \<and> queryParams (get ''ds-acsc-400'' [])
       = \<lparr>raw_type = ''all'', raw_actualModelOnly = None, raw_expiresIn = None\<rparr>
   \<and> response_of (photos_GET sample_env (get ''ds-acsc-400'' []))
       = Some (invalid_response ''Invalid query parameters''
                 [Issue ''invalid_type'' [''actualModelOnly''],
                  Issue ''invalid_type'' [''expiresIn'']])
   \<and> status_of (photos_GET sample_env (get ''ds-acsc-400'' [])) = Some 400"
proof -
  have q: "queryParams (get ''ds-acsc-400'' [])
      = \<lparr>raw_type = ''all'', raw_actualModelOnly = None, raw_expiresIn = None\<rparr>"
    by (simp add: queryParams_def get_def or_string_def)
  have "querySchema sample_env (queryParams (get ''ds-acsc-400'' []))
      = Inl [Issue ''invalid_type'' [''actualModelOnly''], Issue ''invalid_type'' [''expiresIn'']]"
    by (simp add: q querySchema_def querySchema_issues_def photo_types_def)
  from photos_rejected [OF this] q show ?thesis
    by (simp add: response_of_def status_of_def sample_env_def sample_lookup_def)
qed

theorem photos_without_parameters_400_witness:
  "status_of (photos_GET sample_env (get ''ds-acsc-400'' [])) = Some 400
   \<and> status_of (photos_GET sample_env
        (get ''ds-acsc-400'' [(''actualModelOnly'', ''false''), (''expiresIn'', ''60'')]))
       = Some 200"
proof -
  have q: "querySchema sample_env (queryParams
      (get ''ds-acsc-400'' [(''actualModelOnly'', ''false''), (''expiresIn'', ''60'')]))
      = Inr \<lparr>pq_type = ''all'', pq_actualModelOnly = False, pq_expiresIn = 60\<rparr>"
    by (simp add: querySchema_def querySchema_issues_def photo_types_def queryParams_def
        get_def or_string_def truthy_str_def sample_env_def)
  have "response_of (photos_GET sample_env
      (get ''ds-acsc-400'' [(''actualModelOnly'', ''false''), (''expiresIn'', ''60'')]))
      = Some (NextResponse_json
                (photos_json sample_env sample_photo_set
                   (map (\<lambda>p. photo_with_url p (''https://cdn.example/'' @ photo_s3Key p) 60)
                      (filter_photos ''all'' False (ps_photos sample_photo_set)))) 200)"
    using photos_returned [OF q, of sample_photo_set "\<lambda>p. ''https://cdn.example/'' @ photo_s3Key p"]
    by (simp add: sample_env_def sample_lookup_def get_def)
  then show ?thesis
    using photos_without_parameters_400
    by (simp add: status_of_def NextResponse_json_def)
qed

section \<open>Quotation items\<close>

lemma quotation_item_priced:
  assumes "getProductById env (ri_productId item) \<noteq> None"
  shows "\<exists>built. quotation_item env currency item index = Inr built
           \<and> priced_as_claimed env currency item built"
  using assms
  by (auto simp: quotation_item_def priced_as_claimed_def Let_def nullish_def or_number_def
      or_string_def split: option.splits)

lemma quotation_items_priced:
  assumes "\<forall>item \<in> set items. getProductById env (ri_productId item) \<noteq> None"
  shows "\<exists>built. quotation_items env currency index items = Inr built
           \<and> list_all2 (priced_as_claimed env currency) items built"
  using assms
proof (induction items arbitrary: index)
  case Nil
  then show ?case by simp
next
  case (Cons item items)
  obtain built where built: "quotation_item env currency item index = Inr built"
    "priced_as_claimed env currency item built"
    using quotation_item_priced [of env item currency index] Cons.prems by auto
  obtain rest where rest: "quotation_items env currency (Suc index) items = Inr rest"
    "list_all2 (priced_as_claimed env currency) items rest"
    using Cons.IH [of "Suc index"] Cons.prems by auto
  from built rest show ?case by simp
qed

lemma single_call_trace:
  assumes "is_downstream c" and "\<And>x. f x = ret (g x)"
  shows "downstream (snd (try_catch (io_bind (io_call c r) f) (catch_zod logged invalid failed)))
           = [c]"
proof (cases r)
  case (Inl e)
  with assms(1) show ?thesis
    by (cases e)
      (simp_all add: try_catch_def io_bind_def io_call_def catch_zod_def log_def ret_def
        downstream_def)
next
  case (Inr x)
  with assms show ?thesis
    by (simp add: try_catch_def io_bind_def io_call_def ret_def downstream_def)
qed

lemma quotation_row_valid:
  "qt_validUntil (q_terms quotation) = Some validUntil \<Longrightarrow>
   \<exists>row. quotation_row_of quotation totals = Inr row \<and> qr_items row = q_items quotation
         \<and> st_validUntil (qr_terms row) = validUntil"
  by (simp add: quotation_row_of_def toISOString_def)

lemma quotation_row_invalid:
  "qt_validUntil (q_terms quotation) = None \<Longrightarrow>
   quotation_row_of quotation totals = Inl (Error ''Invalid time value'')"
  by (simp add: quotation_row_of_def toISOString_def)

lemma build_quotation_simps:
  "q_items (build_quotation env validated built) = built"
  "qt_validUntil (q_terms (build_quotation env validated built))
     = date_in_days env (nullish (cqr_validityDays validated) (defaultValidityDays env))"
  by (simp_all add: build_quotation_def Let_def)

text \<open>
  C9, as the code has it. For a request that the schema accepts and whose products the
  catalog has: when the validity period leads to a date, the quotation handed to the
  database (the one downstream call) holds one item per requested item, in request order,
  each priced by the rule above and with \<open>totalPrice = unitPrice * quantity\<close>, the product
  as the number type computes it; when the validity period leads out of the range of
  dates, nothing is stored and the answer is 500.
\<close>

theorem quotation_create_items:
  fixes env :: "('n::{zero,times}) env"
  assumes "JSON_parse env (req_text req) = Inr parsed"
    and "createQuotationSchema env parsed = Inr validated"
    and "\<forall>item \<in> set (cqr_items validated). getProductById env (ri_productId item) \<noteq> None"
  shows "(\<forall>validUntil.
            date_in_days env (nullish (cqr_validityDays validated) (defaultValidityDays env))
              = Some validUntil
            \<longrightarrow> (\<exists>row. downstream (trace_of (quotation_create_POST env req))
                          = [DbCreateQuotation row]
                      \<and> list_all2 (priced_as_claimed env (cqr_currency validated))
                           (cqr_items validated) (qr_items row)
                      \<and> st_validUntil (qr_terms row) = validUntil))
         \<and> (date_in_days env (nullish (cqr_validityDays validated) (defaultValidityDays env))
              = None
            \<longrightarrow> downstream (trace_of (quotation_create_POST env req)) = []
                \<and> response_of (quotation_create_POST env req)
                    = Some (failure_response ''Failed to create quotation''
                              (Error ''Invalid time value'')))"
proof (intro conjI allI impI)
  obtain built where built:
    "quotation_items env (cqr_currency validated) 0 (cqr_items validated) = Inr built"
    "list_all2 (priced_as_claimed env (cqr_currency validated)) (cqr_items validated) built"
    using quotation_items_priced [OF assms(3)] by blast
  define quotation where "quotation = build_quotation env validated built"
  define totals where "totals = calculateQuotationTotals env quotation"
  have ran: "quotation_create_try env req
      = io_bind (lift (quotation_row_of quotation totals)) (\<lambda>row.
        io_bind (io_call (DbCreateQuotation row) (db_createQuotation env row)) (\<lambda>stored.
          ret (NextResponse_json (obj [(''success'', Some (JBool True)), (''quotation'', stored)])
                 201)))"
    using assms(1,2) built(1)
    by (simp add: quotation_create_try_def req_json_def schema_parse_def bind_lift_Inr Let_def
        quotation_def totals_def)
  {
    fix validUntil
    assume "date_in_days env (nullish (cqr_validityDays validated) (defaultValidityDays env))
        = Some validUntil"
    then have "qt_validUntil (q_terms quotation) = Some validUntil"
      by (simp add: quotation_def build_quotation_simps)
    then obtain row where row: "quotation_row_of quotation totals = Inr row"
      "qr_items row = q_items quotation" "st_validUntil (qr_terms row) = validUntil"
      using quotation_row_valid by blast
    have "downstream (trace_of (quotation_create_POST env req)) = [DbCreateQuotation row]"
      by (simp add: quotation_create_POST_def trace_of_def ran row(1) bind_lift_Inr
          single_call_trace)
    with row built(2)
    show "\<exists>row. downstream (trace_of (quotation_create_POST env req)) = [DbCreateQuotation row]
        \<and> list_all2 (priced_as_claimed env (cqr_currency validated))
             (cqr_items validated) (qr_items row)
        \<and> st_validUntil (qr_terms row) = validUntil"
      by (auto simp: quotation_def build_quotation_simps)
  }
  {
    assume "date_in_days env (nullish (cqr_validityDays validated) (defaultValidityDays env))
        = None"
    then have "qt_validUntil (q_terms quotation) = None"
      by (simp add: quotation_def build_quotation_simps)
    then have thrown: "quotation_create_try env req = throw (Error ''Invalid time value'')"
      by (simp add: ran quotation_row_invalid bind_lift_Inl)
    show "downstream (trace_of (quotation_create_POST env req)) = []"
      by (simp add: quotation_create_POST_def thrown throw_def try_catch_def catch_zod_def
          io_bind_def log_def ret_def trace_of_def downstream_def)
    show "response_of (quotation_create_POST env req)
        = Some (failure_response ''Failed to create quotation'' (Error ''Invalid time value''))"
      by (simp add: quotation_create_POST_def thrown throw_def try_catch_def catch_zod_def
          io_bind_def log_def ret_def response_of_def)
  }
qed

text \<open>
  With double-precision numbers the total price is the rounded product: three parts at
  0.1 are priced 0.30000000000000004 (\<open>1351079888211149 * 2 ^ -52\<close>).
\<close>

lemma three_tenths: "Double 3602879701896397 (- 55) * Double 3 0 = Double 1351079888211149 (- 52)"
  by code_simp

lemma tenth_priced:
  assumes "list_all2 (priced_as_claimed tenth_env ''USD'') (cqr_items tenth_request) built"
  shows "map qi_unitPrice built = [Double 3602879701896397 (- 55)]
         \<and> map qi_totalPrice built = [Double 1351079888211149 (- 52)]"
proof -
  from assms obtain b where b: "built = [b]"
    "priced_as_claimed tenth_env ''USD''
       \<lparr>ri_productId = ''ds-part'', ri_variantId = None, ri_quantity = Double 3 0,
        ri_customPrice = None\<rparr> b"
    by (auto simp: tenth_request_def list_all2_Cons1)
  from b(2) have "qi_unitPrice b = Double 3602879701896397 (- 55)"
    "qi_totalPrice b = qi_unitPrice b * Double 3 0"
    by (auto simp: priced_as_claimed_def tenth_env_def cents_env_def tenth_product_def)
  with b(1) show ?thesis
    by (simp add: three_tenths)
qed

theorem quotation_create_items_witness:
  "JSON_parse sample_env (req_text (post ''{}'')) = Inr (JObj [])
   \<and> createQuotationSchema sample_env (JObj []) = Inr sample_quotation_request
   \<and> getProductById sample_env ''ds-acsc-400'' = Some sample_product
   \<and> date_in_days sample_env 30 = Some ''2025-07-01T00:00:00.000Z''
   \<and> (\<exists>row. downstream (trace_of (quotation_create_POST sample_env (post ''{}'')))
               = [DbCreateQuotation row]
            \<and> list_all2 (priced_as_claimed sample_env ''USD'')
                 (cqr_items sample_quotation_request) (qr_items row)
            \<and> st_validUntil (qr_terms row) = ''2025-07-01T00:00:00.000Z'')
   \<and> createQuotationSchema far_validity_env (JObj [])
       = Inr (sample_quotation_request\<lparr>cqr_validityDays := Some 1000000000\<rparr>)
   \<and> date_in_days far_validity_env 1000000000 = None
   \<and> downstream (trace_of (quotation_create_POST far_validity_env (post ''{}''))) = []
   \<and> status_of (quotation_create_POST far_validity_env (post ''{}'')) = Some 500
   \<and> createQuotationSchema tenth_env (JObj []) = Inr tenth_request
   \<and> prod_basePrice tenth_product = Double 3602879701896397 (- 55)
   \<and> map ri_quantity (cqr_items tenth_request) = [Double 3 0]
   \<and> (\<exists>row. downstream (trace_of (quotation_create_POST tenth_env (post ''{}'')))
               = [DbCreateQuotation row]
            \<and> map qi_unitPrice (qr_items row) = [Double 3602879701896397 (- 55)]
            \<and> map qi_totalPrice (qr_items row) = [Double 1351079888211149 (- 52)])"
proof -
  have env: "JSON_parse sample_env (req_text (post ''{}'')) = Inr (JObj [])"
    "createQuotationSchema sample_env (JObj []) = Inr sample_quotation_request"
    "getProductById sample_env ''ds-acsc-400'' = Some sample_product"
    by (simp_all add: sample_env_def post_def sample_JSON_parse_def sample_schema_def
        sample_lookup_def)
  have known: "\<forall>item \<in> set (cqr_items sample_quotation_request).
      getProductById sample_env (ri_productId item) \<noteq> None"
    by (simp add: sample_quotation_request_def env)
  have currency: "cqr_currency sample_quotation_request = ''USD''"
    by (simp add: sample_quotation_request_def)
  have days: "nullish (cqr_validityDays sample_quotation_request) (defaultValidityDays sample_env)
      = 30" "date_in_days sample_env 30 = Some ''2025-07-01T00:00:00.000Z''"
    by (simp_all add: sample_quotation_request_def sample_env_def nullish_def)
  have far: "JSON_parse far_validity_env (req_text (post ''{}'')) = Inr (JObj [])"
    "createQuotationSchema far_validity_env (JObj [])
      = Inr (sample_quotation_request\<lparr>cqr_validityDays := Some 1000000000\<rparr>)"
    "\<forall>item \<in> set (cqr_items (sample_quotation_request\<lparr>cqr_validityDays := Some 1000000000\<rparr>)).
      getProductById far_validity_env (ri_productId item) \<noteq> None"
    "date_in_days far_validity_env
       (nullish (cqr_validityDays (sample_quotation_request\<lparr>cqr_validityDays := Some 1000000000\<rparr>))
          (defaultValidityDays far_validity_env)) = None"
    "date_in_days far_validity_env 1000000000 = None"
    by (simp_all add: far_validity_env_def sample_env_def post_def sample_JSON_parse_def
        sample_schema_def sample_lookup_def sample_quotation_request_def nullish_def)
  have tenth: "JSON_parse tenth_env (req_text (post ''{}'')) = Inr (JObj [])"
    "createQuotationSchema tenth_env (JObj []) = Inr tenth_request"
    "\<forall>item \<in> set (cqr_items tenth_request).
      getProductById tenth_env (ri_productId item) \<noteq> None"
    "date_in_days tenth_env
       (nullish (cqr_validityDays tenth_request) (defaultValidityDays tenth_env))
       = Some ''2025-07-01T00:00:00.000Z''"
    "cqr_currency tenth_request = ''USD''"
    "prod_basePrice tenth_product = Double 3602879701896397 (- 55)"
    "map ri_quantity (cqr_items tenth_request) = [Double 3 0]"
    by (simp_all add: tenth_env_def cents_env_def tenth_request_def tenth_product_def)
  have near: "\<exists>row. downstream (trace_of (quotation_create_POST sample_env (post ''{}'')))
               = [DbCreateQuotation row]
            \<and> list_all2 (priced_as_claimed sample_env ''USD'')
                 (cqr_items sample_quotation_request) (qr_items row)
            \<and> st_validUntil (qr_terms row) = ''2025-07-01T00:00:00.000Z''"
    using quotation_create_items [OF env(1,2) known] days
    unfolding currency by simp
  have beyond: "downstream (trace_of (quotation_create_POST far_validity_env (post ''{}''))) = []
      \<and> status_of (quotation_create_POST far_validity_env (post ''{}'')) = Some 500"
    using quotation_create_items [OF far(1,2,3)] far(4)
    by (simp add: status_of_def)
  have "\<exists>row. downstream (trace_of (quotation_create_POST tenth_env (post ''{}'')))
               = [DbCreateQuotation row]
            \<and> list_all2 (priced_as_claimed tenth_env ''USD'')
                 (cqr_items tenth_request) (qr_items row)"
    using quotation_create_items [OF tenth(1,2,3)] tenth(4)
    unfolding tenth(5) by auto
  then have rounded: "\<exists>row. downstream (trace_of (quotation_create_POST tenth_env (post ''{}'')))
               = [DbCreateQuotation row]
            \<and> map qi_unitPrice (qr_items row) = [Double 3602879701896397 (- 55)]
            \<and> map qi_totalPrice (qr_items row) = [Double 1351079888211149 (- 52)]"
    using tenth_priced by blast
  from near beyond rounded env days far tenth show ?thesis by simp
qed

text \<open>The sample request is priced at the base price, twice for the quantity two.\<close>

lemma sample_quotation_priced:
  "quotation_items sample_env ''USD'' 0 (cqr_items sample_quotation_request) = Inr built
   \<Longrightarrow> map qi_unitPrice built = [4500] \<and> map qi_totalPrice built = [9000]"
  by (auto simp: sample_env_def sample_quotation_request_def sample_product_def
      sample_lookup_def quotation_item_def or_number_def or_string_def nullish_def Let_def)

text \<open>
  C9 as stated fails: a catalog price exists and is zero, no custom price and no variant
  are given, and the item's unit price is the base price, not the catalog price.
\<close>

theorem zero_catalog_price_counterexample:
  "getProductPrice zero_price_env ''ds-acsc-400'' ''USD'' = Some 0
   \<and> prod_basePrice sample_product = 4500
   \<and> map ri_customPrice (cqr_items sample_quotation_request) = [None]
   \<and> map ri_variantId (cqr_items sample_quotation_request) = [None]
   \<and> map_sum message (map qi_unitPrice)
        (quotation_items zero_price_env ''USD'' 0 (cqr_items sample_quotation_request))
       = Inr [4500]"
  by (simp add: zero_price_env_def sample_env_def sample_quotation_request_def
      sample_product_def sample_lookup_def quotation_item_def or_number_def or_string_def
      nullish_def Let_def)

section \<open>Invoice amounts\<close>

lemma or_zero_cases: "or_zero x = (case x of None \<Rightarrow> 0 | Some v \<Rightarrow> v)"
  by (simp add: or_zero_def split: option.splits)

lemma invoice_status_returned:
  fixes env :: "('n::{zero,minus}) env"
  assumes "truthy_str (req_query req ''invoiceId'')"
    and "mercury_invoices_get env (map_option JStr (req_query req ''invoiceId'')) = Inr invoice"
  shows "response_of (invoice_status_GET env req)
         = Some (NextResponse_json
                   (JObj [(''success'', JBool True), (''invoice'', invoice_status_json invoice)])
                   200)"
  using assms
  by (simp add: invoice_status_GET_def invoice_status_try_def response_of_def Let_def io_simps
      io_call_def ret_def io_bind_def try_catch_def)

lemma invoice_status_success:
  fixes env :: "('n::{zero,minus}) env"
  assumes "status_of (invoice_status_GET env req) = Some 200"
  shows "truthy_str (req_query req ''invoiceId'')
         \<and> (\<exists>invoice. mercury_invoices_get env (map_option JStr (req_query req ''invoiceId''))
               = Inr invoice)"
  using assms
  by (auto simp: invoice_status_GET_def invoice_status_try_def response_of_def status_of_def
      Let_def io_call_def ret_def io_bind_def try_catch_def catch_all_def log_def
      failure_response_def NextResponse_json_def
      split: if_splits sum.splits prod.splits)

text \<open>In arithmetic without rounding the two amounts add up to the total.\<close>

lemma exact_amounts_add_up:
  fixes invoice :: "('n::ab_group_add) invoice"
  shows "or_zero (inv_paidAmount invoice) + (inv_total invoice - or_zero (inv_paidAmount invoice))
         = inv_total invoice"
  by simp

text \<open>
  C8, without the sum: in every successful response of the invoice-status endpoint,
  \<open>total\<close> is the total of the provider's invoice, \<open>amountPaid\<close> is its \<open>paidAmount\<close>, or 0
  when that is absent, and \<open>amountDue\<close> is the difference \<open>total - amountPaid\<close> as the
  number type computes it.
\<close>

theorem invoice_status_amounts:
  fixes env :: "('n::{zero,minus}) env"
  assumes "status_of (invoice_status_GET env req) = Some 200"
  shows "\<exists>invoice paid.
           mercury_invoices_get env (map_option JStr (req_query req ''invoiceId'')) = Inr invoice
         \<and> response_of (invoice_status_GET env req)
             = Some (NextResponse_json
                       (JObj [(''success'', JBool True),
                              (''invoice'', invoice_status_json invoice)]) 200)
         \<and> paid = (case inv_paidAmount invoice of None \<Rightarrow> 0 | Some amount \<Rightarrow> amount)
         \<and> opt_prop ''total'' (Some (invoice_status_json invoice))
             = Some (JNum (inv_total invoice))
         \<and> opt_prop ''amountPaid'' (Some (invoice_status_json invoice)) = Some (JNum paid)
         \<and> opt_prop ''amountDue'' (Some (invoice_status_json invoice))
             = Some (JNum (inv_total invoice - paid))"
proof -
  from invoice_status_success [OF assms] obtain invoice
    where given: "truthy_str (req_query req ''invoiceId'')"
      and found: "mercury_invoices_get env (map_option JStr (req_query req ''invoiceId''))
                  = Inr invoice"
    by blast
  have "opt_prop ''total'' (Some (invoice_status_json invoice)) = Some (JNum (inv_total invoice))"
    by (cases "inv_paidAt invoice") (simp_all add: invoice_status_json_def obj_def)
  moreover have "opt_prop ''amountPaid'' (Some (invoice_status_json invoice))
      = Some (JNum (case inv_paidAmount invoice of None \<Rightarrow> 0 | Some amount \<Rightarrow> amount))"
    by (cases "inv_paidAt invoice")
      (simp_all add: invoice_status_json_def obj_def or_zero_cases)
  moreover have "opt_prop ''amountDue'' (Some (invoice_status_json invoice))
      = Some (JNum (inv_total invoice
                    - (case inv_paidAmount invoice of None \<Rightarrow> 0 | Some amount \<Rightarrow> amount)))"
    by (cases "inv_paidAt invoice")
      (simp_all add: invoice_status_json_def obj_def or_zero_cases)
  ultimately show ?thesis
    using found invoice_status_returned [OF given found] by blast
qed

theorem invoice_status_amounts_witness:
  "status_of (invoice_status_GET sample_env (get [] [(''invoiceId'', ''inv_1'')])) = Some 200
   \<and> (\<exists>invoice paid.
         mercury_invoices_get sample_env
           (map_option JStr (req_query (get [] [(''invoiceId'', ''inv_1'')]) ''invoiceId''))
           = Inr invoice
       \<and> response_of (invoice_status_GET sample_env (get [] [(''invoiceId'', ''inv_1'')]))
           = Some (NextResponse_json
                     (JObj [(''success'', JBool True),
                            (''invoice'', invoice_status_json invoice)]) 200)
       \<and> paid = (case inv_paidAmount invoice of None \<Rightarrow> 0 | Some amount \<Rightarrow> amount)
       \<and> opt_prop ''total'' (Some (invoice_status_json invoice))
           = Some (JNum (inv_total invoice))
       \<and> opt_prop ''amountPaid'' (Some (invoice_status_json invoice)) = Some (JNum paid)
       \<and> opt_prop ''amountDue'' (Some (invoice_status_json invoice))
           = Some (JNum (inv_total invoice - paid)))"
proof -
  have "status_of (invoice_status_GET sample_env (get [] [(''invoiceId'', ''inv_1'')])) = Some 200"
    by (simp add: invoice_status_GET_def invoice_status_try_def response_of_def status_of_def
        Let_def io_call_def ret_def io_bind_def try_catch_def NextResponse_json_def get_def
        truthy_str_def sample_env_def)
  with invoice_status_amounts [of sample_env "get [] [(''invoiceId'', ''inv_1'')]"]
  show ?thesis by simp
qed

text \<open>
  With double-precision numbers the amounts need not add up: for the invoice of 0.11 with
  0.04 paid, the response has \<open>amountDue\<close> 0.07 (\<open>1261007895663739 * 2 ^ -54\<close>), and 0.04 + 0.07
  is 0.11000000000000001 (\<open>3963167672086037 * 2 ^ -55\<close>), the double after 0.11.
\<close>

text \<open>The rounding at work on a sum that is exact, and on 0.1 + 0.2 = 0.30000000000000004.\<close>

lemma double_sums:
  "Double 3 0 + Double 1 (- 1) = Double 7 (- 1)"
  "Double 3602879701896397 (- 55) + Double 3602879701896397 (- 54)
     = Double 1351079888211149 (- 52)"
  by code_simp+

lemma cents_amounts:
  "Double 7926335344172073 (- 56) - Double 5764607523034235 (- 57)
     = Double 1261007895663739 (- 54)"
  "Double 5764607523034235 (- 57) + Double 1261007895663739 (- 54)
     = Double 3963167672086037 (- 55)"
  by code_simp+

theorem rounded_amounts_counterexample:
  "response_of (invoice_status_GET cents_env (get [] [(''invoiceId'', ''inv_2'')]))
     = Some (NextResponse_json
               (JObj [(''success'', JBool True),
                      (''invoice'', invoice_status_json cents_invoice)]) 200)
   \<and> opt_prop ''total'' (Some (invoice_status_json cents_invoice))
       = Some (JNum (Double 7926335344172073 (- 56)))
   \<and> opt_prop ''amountPaid'' (Some (invoice_status_json cents_invoice))
       = Some (JNum (Double 5764607523034235 (- 57)))
   \<and> opt_prop ''amountDue'' (Some (invoice_status_json cents_invoice))
       = Some (JNum (Double 1261007895663739 (- 54)))
   \<and> Double 5764607523034235 (- 57) + Double 1261007895663739 (- 54)
       = Double 3963167672086037 (- 55)
   \<and> Double 3963167672086037 (- 55) \<noteq> Double 7926335344172073 (- 56)"
proof -
  have "response_of (invoice_status_GET cents_env (get [] [(''invoiceId'', ''inv_2'')]))
     = Some (NextResponse_json
               (JObj [(''success'', JBool True),
                      (''invoice'', invoice_status_json cents_invoice)]) 200)"
    by (rule invoice_status_returned)
      (simp_all add: get_def truthy_str_def cents_env_def)
  moreover have "or_zero (Some (Double 5764607523034235 (- 57))) = Double 5764607523034235 (- 57)"
    by (simp add: or_zero_cases)
  ultimately show ?thesis
    by (simp add: invoice_status_json_def obj_def cents_invoice_def cents_amounts)
qed

end
